theory Spec2Isabelle
  imports Complex_Main "HOL-Library.Word" "HOL-Library.AList"
begin

section \<open>Python values used by the tunnel\<close>

text \<open>
  The two peers of the tunnel are \<^verbatim>\<open>tcp_tunnel_server.py\<close> (class
  \<^verbatim>\<open>TCPTunnelServer\<close>) and \<^verbatim>\<open>tcp_tunnel_client.py\<close> (class
  \<^verbatim>\<open>TCPTunnelClient\<close>). A Python \<^verbatim>\<open>bytes\<close> object is a list of
  8-bit words; a Python \<^verbatim>\<open>str\<close> is a list of Unicode code points (surrogate
  code points included, as \<^verbatim>\<open>surrogateescape\<close> produces them). A stream
  writer is known by the identity of its connection.
\<close>

type_synonym byte = "8 word"
type_synonym pystr = "nat list"
type_synonym conn = nat

definition ascii :: "string \<Rightarrow> pystr" where
  "ascii s = map of_char s"

definition bytes_of :: "string \<Rightarrow> byte list" where
  "bytes_of s = map (\<lambda>c. word_of_nat (of_char c)) s"

definition CRLF :: pystr where
  "CRLF = [13, 10]"

subsection \<open>The UTF-8 codec with its error handlers\<close>

datatype errors = Strict | Ignore | SurrogateEscape

definition is_cont :: "byte \<Rightarrow> bool" where
  "is_cont b \<longleftrightarrow> 0x80 \<le> b \<and> b \<le> 0xBF"

text \<open>
  \<open>utf8_next\<close> looks at the head of a byte string the way the decoder of
  \<^verbatim>\<open>bytes.decode('utf-8')\<close> does: \<open>(Some cp, n)\<close> is a well-formed sequence of
  \<open>n\<close> bytes for the code point \<open>cp\<close>; \<open>(None, n)\<close> is an error whose range, the one
  handed to the error handler, is the first \<open>n\<close> bytes (an invalid start byte, a start
  byte with the continuation bytes that were still valid, or a sequence cut off by the
  end of the data).
\<close>

fun utf8_next :: "byte list \<Rightarrow> nat option \<times> nat" where
  "utf8_next [] = (None, 0)"
| "utf8_next (b0 # bs) =
    (if b0 < 0x80 then (Some (unat b0), 1)
     else if b0 < 0xC2 then (None, 1)
     else if b0 < 0xE0 then
       (case bs of
          [] \<Rightarrow> (None, 1)
        | b1 # _ \<Rightarrow>
            if is_cont b1 then (Some ((unat b0 - 0xC0) * 64 + (unat b1 - 0x80)), 2)
            else (None, 1))
     else if b0 < 0xF0 then
       (case bs of
          [] \<Rightarrow> (None, 1)
        | b1 # bs1 \<Rightarrow>
            if \<not> is_cont b1 \<or> (if b1 < 0xA0 then b0 = 0xE0 else b0 = 0xED) then (None, 1)
            else (case bs1 of
                    [] \<Rightarrow> (None, 2)
                  | b2 # _ \<Rightarrow>
                      if is_cont b2
                      then (Some ((unat b0 - 0xE0) * 4096 + (unat b1 - 0x80) * 64
                                  + (unat b2 - 0x80)), 3)
                      else (None, 2)))
     else if b0 < 0xF5 then
       (case bs of
          [] \<Rightarrow> (None, 1)
        | b1 # bs1 \<Rightarrow>
            if \<not> is_cont b1 \<or> (if b1 < 0x90 then b0 = 0xF0 else b0 = 0xF4) then (None, 1)
            else (case bs1 of
                    [] \<Rightarrow> (None, 2)
                  | b2 # bs2 \<Rightarrow>
                      if \<not> is_cont b2 then (None, 2)
                      else (case bs2 of
                              [] \<Rightarrow> (None, 3)
                            | b3 # _ \<Rightarrow>
                                if is_cont b3
                                then (Some ((unat b0 - 0xF0) * 262144
                                            + (unat b1 - 0x80) * 4096
                                            + (unat b2 - 0x80) * 64 + (unat b3 - 0x80)), 4)
                                else (None, 3))))
     else (None, 1))"

lemma utf8_next_pos: "bs \<noteq> [] \<Longrightarrow> (r, n) = utf8_next bs \<Longrightarrow> 0 < n"
  by (cases bs) (auto split: if_splits list.splits)

lemma utf8_next_shorter: "bs \<noteq> [] \<Longrightarrow> (r, n) = utf8_next bs \<Longrightarrow> length bs - n < length bs"
  using utf8_next_pos [of bs r n] by (cases bs) auto

text \<open>
  \<^verbatim>\<open>bytes.decode('utf-8', errors=h)\<close>. \<^verbatim>\<open>strict\<close> raises UnicodeDecodeError (the
  value \<open>None\<close>), \<^verbatim>\<open>ignore\<close> leaves the bytes of the error range out, and
  \<^verbatim>\<open>surrogateescape\<close> turns each of them into the lone surrogate U+DC00 + byte.
\<close>

function utf8_decode :: "errors \<Rightarrow> byte list \<Rightarrow> pystr option" where
  "utf8_decode h bs =
    (if bs = [] then Some []
     else case utf8_next bs of
       (Some cp, n) \<Rightarrow> map_option ((#) cp) (utf8_decode h (drop n bs))
     | (None, n) \<Rightarrow>
         (case h of
            Strict \<Rightarrow> None
          | Ignore \<Rightarrow> utf8_decode h (drop n bs)
          | SurrogateEscape \<Rightarrow>
              map_option ((@) (map (\<lambda>b. 0xDC00 + unat b) (take n bs)))
                (utf8_decode h (drop n bs))))"
  by pat_completeness auto
termination
  by (relation "measure (\<lambda>(h, bs). length bs)") (auto intro: utf8_next_shorter)

declare utf8_decode.simps [simp del]

definition decode_ignore :: "byte list \<Rightarrow> pystr" where
  "decode_ignore bs = (case utf8_decode Ignore bs of Some s \<Rightarrow> s | None \<Rightarrow> [])"

definition decode_surrogateescape :: "byte list \<Rightarrow> pystr" where
  "decode_surrogateescape bs =
    (case utf8_decode SurrogateEscape bs of Some s \<Rightarrow> s | None \<Rightarrow> [])"

definition is_surrogate :: "nat \<Rightarrow> bool" where
  "is_surrogate cp \<longleftrightarrow> 0xD800 \<le> cp \<and> cp \<le> 0xDFFF"

definition encode_cp :: "nat \<Rightarrow> byte list" where
  "encode_cp cp =
    (if cp < 0x80 then [word_of_nat cp]
     else if cp < 0x800 then [word_of_nat (0xC0 + cp div 64), word_of_nat (0x80 + cp mod 64)]
     else if cp < 0x10000 then
       [word_of_nat (0xE0 + cp div 4096), word_of_nat (0x80 + cp div 64 mod 64),
        word_of_nat (0x80 + cp mod 64)]
     else
       [word_of_nat (0xF0 + cp div 262144), word_of_nat (0x80 + cp div 4096 mod 64),
        word_of_nat (0x80 + cp div 64 mod 64), word_of_nat (0x80 + cp mod 64)])"

text \<open>
  \<^verbatim>\<open>str.encode('utf-8', errors=h)\<close> from position \<open>i\<close> on. A surrogate cannot be
  encoded: \<^verbatim>\<open>surrogateescape\<close> turns U+DC80..U+DCFF back into the byte it stands
  for; everything else raises UnicodeEncodeError, here \<open>Inl (start, end)\<close> with the
  range of the exception: from the offending character to the end of the run of
  surrogates it stands in.
\<close>

fun surrogate_run :: "pystr \<Rightarrow> nat" where
  "surrogate_run [] = 0"
| "surrogate_run (c # s) = (if is_surrogate c then Suc (surrogate_run s) else 0)"

fun utf8_encode_from :: "errors \<Rightarrow> nat \<Rightarrow> pystr \<Rightarrow> (nat \<times> nat) + byte list" where
  "utf8_encode_from h i [] = Inr []"
| "utf8_encode_from h i (c # s) =
    (if is_surrogate c \<and> \<not> (h = SurrogateEscape \<and> 0xDC80 \<le> c \<and> c \<le> 0xDCFF)
     then Inl (i, i + surrogate_run (c # s))
     else case utf8_encode_from h (Suc i) s of
            Inl e \<Rightarrow> Inl e
          | Inr bs \<Rightarrow>
              Inr ((if is_surrogate c then [word_of_nat (c - 0xDC00)] else encode_cp c) @ bs))"

definition utf8_encode :: "errors \<Rightarrow> pystr \<Rightarrow> (nat \<times> nat) + byte list" where
  "utf8_encode h s = utf8_encode_from h 0 s"

subsection \<open>String and bytes methods\<close>

text \<open>\<^verbatim>\<open>s.startswith(p)\<close>, \<^verbatim>\<open>s.find(sub)\<close> (\<open>None\<close> for -1) and \<^verbatim>\<open>sub in s\<close>.\<close>

fun startswith :: "'a list \<Rightarrow> 'a list \<Rightarrow> bool" where
  "startswith s [] = True"
| "startswith [] (p # ps) = False"
| "startswith (c # s) (p # ps) = (c = p \<and> startswith s ps)"

fun py_find :: "'a list \<Rightarrow> 'a list \<Rightarrow> nat option" where
  "py_find [] sub = (if sub = [] then Some 0 else None)"
| "py_find (c # s) sub =
    (if startswith (c # s) sub then Some 0 else map_option Suc (py_find s sub))"

definition py_in :: "'a list \<Rightarrow> 'a list \<Rightarrow> bool" where
  "py_in sub s \<longleftrightarrow> py_find s sub \<noteq> None"

lemma py_find_bound: "py_find s sub = Some i \<Longrightarrow> sub \<noteq> [] \<Longrightarrow> i < length s"
  by (induction s arbitrary: i) (auto split: if_splits)

lemma py_find_shorter:
  "py_find s sep = Some i \<Longrightarrow> sep \<noteq> [] \<Longrightarrow> length s - (i + length sep) < length s"
  using py_find_bound [of s sep i] by (cases sep) auto

text \<open>
  \<^verbatim>\<open>s.split(sep)\<close> and \<^verbatim>\<open>s.split(sep, 1)\<close>. The source only splits on the
  literals \<^verbatim>\<open>'\r\n'\<close>, \<^verbatim>\<open>' '\<close> and \<^verbatim>\<open>':'\<close>; an empty separator (a
  ValueError in Python) does not occur.
\<close>

function py_split :: "'a list \<Rightarrow> 'a list \<Rightarrow> 'a list list" where
  "py_split s sep =
    (if sep = [] then [s]
     else case py_find s sep of
       None \<Rightarrow> [s]
     | Some i \<Rightarrow> take i s # py_split (drop (i + length sep) s) sep)"
  by pat_completeness auto
termination
  by (relation "measure (\<lambda>(s, sep). length s)") (auto intro: py_find_shorter)

declare py_split.simps [simp del]

definition split1 :: "'a list \<Rightarrow> 'a list \<Rightarrow> 'a list list" where
  "split1 s sep =
    (case py_find s sep of
       None \<Rightarrow> [s]
     | Some i \<Rightarrow> [take i s, drop (i + length sep) s])"

text \<open>
  \<^verbatim>\<open>str.strip()\<close> removes the characters for which \<^verbatim>\<open>str.isspace\<close> holds;
  \<^verbatim>\<open>str.rstrip(chars)\<close> removes trailing characters of \<open>chars\<close>.
\<close>

definition is_space :: "nat \<Rightarrow> bool" where
  "is_space c \<longleftrightarrow>
     (9 \<le> c \<and> c \<le> 13) \<or> (28 \<le> c \<and> c \<le> 32) \<or> c = 0x85 \<or> c = 0xA0 \<or> c = 0x1680
     \<or> (0x2000 \<le> c \<and> c \<le> 0x200A) \<or> c = 0x2028 \<or> c = 0x2029 \<or> c = 0x202F
     \<or> c = 0x205F \<or> c = 0x3000"

definition py_strip :: "pystr \<Rightarrow> pystr" where
  "py_strip s = rev (dropWhile is_space (rev (dropWhile is_space s)))"

definition py_rstrip :: "pystr \<Rightarrow> pystr \<Rightarrow> pystr" where
  "py_rstrip s chars = rev (dropWhile (\<lambda>c. c \<in> set chars) (rev s))"

text \<open>
  \<^verbatim>\<open>str.lower()\<close> on the letters A to Z. The source only compares the lowered text
  with \<^verbatim>\<open>'content-length:'\<close> and \<^verbatim>\<open>'transfer-encoding'\<close>, and no character
  outside ASCII lowers to a letter of these two words, so the tests agree with Python's
  on every string.
\<close>

definition py_lower :: "pystr \<Rightarrow> pystr" where
  "py_lower s = map (\<lambda>c. if 65 \<le> c \<and> c \<le> 90 then c + 32 else c) s"

text \<open>
  \<^verbatim>\<open>int(s)\<close> for a decimal literal in ASCII digits: surrounding white space, an
  optional sign, digits with single underscores between them. \<open>None\<close> is ValueError
  (digits of other scripts, which Python also reads, are ValueError here).
\<close>

definition is_digit :: "nat \<Rightarrow> bool" where
  "is_digit c \<longleftrightarrow> 48 \<le> c \<and> c \<le> 57"

fun int_digits :: "bool \<Rightarrow> nat \<Rightarrow> pystr \<Rightarrow> nat option" where
  "int_digits d acc [] = (if d then Some acc else None)"
| "int_digits d acc (c # s) =
    (if is_digit c then int_digits True (acc * 10 + (c - 48)) s
     else if c = 95 \<and> d then
       (case s of [] \<Rightarrow> None | c' # _ \<Rightarrow> if is_digit c' then int_digits False acc s else None)
     else None)"

definition py_int :: "pystr \<Rightarrow> int option" where
  "py_int s =
    (case py_strip s of
       [] \<Rightarrow> None
     | c # r \<Rightarrow>
         if c = 43 then map_option int (int_digits False 0 r)
         else if c = 45 then map_option (\<lambda>n. - int n) (int_digits False 0 r)
         else map_option int (int_digits False 0 (c # r)))"

text \<open>\<^verbatim>\<open>str(n)\<close> of a natural number and \<^verbatim>\<open>n.to_bytes(4, byteorder='big')\<close>
  (\<open>None\<close> is OverflowError).\<close>

function str_nat :: "nat \<Rightarrow> pystr" where
  "str_nat n = (if n < 10 then [48 + n] else str_nat (n div 10) @ [48 + n mod 10])"
  by pat_completeness auto
termination
  by (relation "measure id") auto

declare str_nat.simps [simp del]

definition to_bytes4 :: "nat \<Rightarrow> byte list option" where
  "to_bytes4 n =
    (if n < 2 ^ 32
     then Some [word_of_nat (n div 16777216), word_of_nat (n div 65536), word_of_nat (n div 256),
                word_of_nat n]
     else None)"

subsection \<open>JSON values and dictionary keys\<close>

text \<open>
  What \<^verbatim>\<open>json.loads\<close> returns. A JSON object is the dictionary built from it, every
  key once. A float is a real number (NaN and the infinities are left out).
  A value used as a dictionary key must be hashable: lists and dictionaries raise
  TypeError (\<open>None\<close>); numbers that are equal are the same key, and \<^verbatim>\<open>True\<close> and
  \<^verbatim>\<open>False\<close> are the keys 1 and 0.
\<close>

datatype json = JNull | JBool bool | JInt int | JFloat real | JStr pystr | JArr "json list"
  | JObj "(pystr \<times> json) list"

datatype pykey = KNone | KNum real | KStr pystr

fun key_of :: "json \<Rightarrow> pykey option" where
  "key_of JNull = Some KNone"
| "key_of (JBool b) = Some (KNum (if b then 1 else 0))"
| "key_of (JInt i) = Some (KNum (of_int i))"
| "key_of (JFloat x) = Some (KNum x)"
| "key_of (JStr s) = Some (KStr s)"
| "key_of (JArr _) = None"
| "key_of (JObj _) = None"

definition dict_get :: "(pystr \<times> json) list \<Rightarrow> string \<Rightarrow> json \<Rightarrow> json" where
  "dict_get d k dflt = (case map_of d (ascii k) of None \<Rightarrow> dflt | Some v \<Rightarrow> v)"

subsection \<open>Library functions taken as parameters\<close>

text \<open>
  The standard library functions the tunnel calls are parameters of the model:
  \<open>hmac_hexdigest key data\<close> is \<^verbatim>\<open>hmac.new(key, data, hashlib.sha256).hexdigest()\<close>,
  \<open>json_dumps v\<close> is \<^verbatim>\<open>json.dumps(v).encode('utf-8')\<close> (the text json.dumps returns
  is ASCII, so the encoding cannot fail), and \<open>json_loads\<close> is \<^verbatim>\<open>json.loads\<close>
  with \<open>None\<close> for JSONDecodeError.
\<close>

record env =
  hmac_hexdigest :: "byte list \<Rightarrow> byte list \<Rightarrow> pystr"
  json_dumps :: "json \<Rightarrow> byte list"
  json_loads :: "pystr \<Rightarrow> json option"

definition create_signature :: "env \<Rightarrow> byte list \<Rightarrow> byte list \<Rightarrow> pystr" where
  "create_signature env key data = hmac_hexdigest env key data"

text \<open>
  \<^verbatim>\<open>hmac.compare_digest\<close> on two strings: equality, in constant time; it raises
  TypeError (\<open>None\<close>) when one of them has a character outside ASCII.
\<close>

definition compare_digest :: "pystr \<Rightarrow> pystr \<Rightarrow> bool option" where
  "compare_digest a b =
    (if list_all (\<lambda>c. c < 128) a \<and> list_all (\<lambda>c. c < 128) b then Some (a = b) else None)"

definition verify_signature :: "env \<Rightarrow> byte list \<Rightarrow> byte list \<Rightarrow> pystr \<Rightarrow> bool option" where
  "verify_signature env key data signature =
    (let expected_signature = hmac_hexdigest env key data
     in compare_digest signature expected_signature)"

text \<open>
  One frame on the wire: the length of the signature in four bytes, the signature, the
  JSON payload. \<open>None\<close> stands for an exception while building it.
\<close>

definition frame_message :: "env \<Rightarrow> byte list \<Rightarrow> json \<Rightarrow> byte list option" where
  "frame_message env key payload =
    (let json_data = json_dumps env payload;
         signature = create_signature env key json_data
     in case utf8_encode Strict signature of
          Inl _ \<Rightarrow> None
        | Inr signature_bytes \<Rightarrow>
            (case to_bytes4 (length signature_bytes) of
               None \<Rightarrow> None
             | Some len \<Rightarrow> Some (len @ signature_bytes @ json_data)))"

section \<open>The Frontend Server: \<^verbatim>\<open>TCPTunnelServer\<close>\<close>

text \<open>
  \<open>clients\<close> and \<open>pending_requests\<close> are the two dictionaries of the class, in
  insertion order (\<^verbatim>\<open>list(self.clients.values())[0]\<close> is the oldest entry; storing
  under a key that is present keeps its place). A client record is
  \<^verbatim>\<open>(writer, last_seen)\<close>, a pending record is \<^verbatim>\<open>web_writer\<close> and
  \<^verbatim>\<open>timestamp\<close>. Times are the values of \<^verbatim>\<open>time.time()\<close>, as real numbers.
  What the server does to its stream writers is recorded in \<open>effects\<close>, in order:
  \<^verbatim>\<open>writer.write(data)\<close> and \<^verbatim>\<open>writer.close()\<close>.
\<close>

datatype action = Write "byte list" | Close

record server_state =
  secret_key :: "byte list"
  clients :: "(pykey \<times> conn \<times> real) list"
  pending_requests :: "(pykey \<times> conn \<times> real) list"
  effects :: "(conn \<times> action) list"

definition emit :: "(conn \<times> action) list \<Rightarrow> server_state \<Rightarrow> server_state" where
  "emit acts s = s\<lparr>effects := effects s @ acts\<rparr>"

fun written_to :: "conn \<Rightarrow> (conn \<times> action) list \<Rightarrow> byte list" where
  "written_to w [] = []"
| "written_to w ((c, Write bs) # es) = (if c = w then bs @ written_to w es else written_to w es)"
| "written_to w ((c, Close) # es) = written_to w es"

definition is_closed :: "conn \<Rightarrow> (conn \<times> action) list \<Rightarrow> bool" where
  "is_closed w es \<longleftrightarrow> (w, Close) \<in> set es"

definition crlf2 :: "byte list" where
  "crlf2 = [13, 10, 13, 10]"

definition resp_500_internal :: "byte list" where
  "resp_500_internal = bytes_of ''HTTP/1.1 500 Internal Server Error'' @ crlf2 @ bytes_of ''Internal error''"

definition resp_500_sending :: "byte list" where
  "resp_500_sending =
     bytes_of ''HTTP/1.1 500 Internal Server Error'' @ crlf2 @ bytes_of ''Error sending to client''"

definition resp_503 :: "byte list" where
  "resp_503 = bytes_of ''HTTP/1.1 503 Service Unavailable'' @ crlf2 @ bytes_of ''No client connected''"

subsection \<open>\<^verbatim>\<open>forward_to_client\<close>\<close>

text \<open>
  \<^verbatim>\<open>request_data\<close> as \<^verbatim>\<open>handle_web_request\<close> builds it. Beside the request and
  the writer of the public connection, the call has two inputs from outside: the time
  at which the pending record is stored and whether \<^verbatim>\<open>client_writer.drain()\<close>
  returns (\<open>False\<close>: it raises).
\<close>

record request_data =
  rd_id :: pystr
  rd_timestamp :: real
  rd_data :: pystr
  rd_client_addr :: json

definition request_json :: "request_data \<Rightarrow> json" where
  "request_json rd =
     JObj [(ascii ''id'', JStr (rd_id rd)), (ascii ''timestamp'', JFloat (rd_timestamp rd)),
           (ascii ''data'', JStr (rd_data rd)), (ascii ''client_addr'', rd_client_addr rd)]"

definition forward_to_client ::
  "env \<Rightarrow> request_data \<Rightarrow> conn \<Rightarrow> real \<Rightarrow> bool \<Rightarrow> server_state \<Rightarrow> server_state" where
  "forward_to_client env rd web_writer stored_at drain_ok s =
    (case frame_message env (secret_key s) (request_json rd) of
       None \<Rightarrow> emit [(web_writer, Write resp_500_internal), (web_writer, Close)] s
     | Some message \<Rightarrow>
         (case clients s of
            [] \<Rightarrow> emit [(web_writer, Write resp_503), (web_writer, Close)] s
          | (_, client_writer, _) # _ \<Rightarrow>
              if drain_ok
              then (emit [(client_writer, Write message)] s)
                     \<lparr>pending_requests :=
                        AList.update (KStr (rd_id rd)) (web_writer, stored_at) (pending_requests s)\<rparr>
              else emit [(client_writer, Write message), (web_writer, Write resp_500_sending),
                         (web_writer, Close)] s))"

subsection \<open>\<^verbatim>\<open>handle_web_request\<close>\<close>

text \<open>
  The reader of a public connection is the bytes it delivers before end of file.
  \<^verbatim>\<open>readuntil\<close> raises when the separator is missing or lies beyond the limit
  (\<^verbatim>\<open>reader._limit = 2**20\<close>), \<^verbatim>\<open>readexactly\<close> when the stream ends early; both
  return what was read and what is left.
\<close>

definition readuntil :: "nat \<Rightarrow> byte list \<Rightarrow> byte list \<Rightarrow> (byte list \<times> byte list) option" where
  "readuntil limit buf sep =
    (case py_find buf sep of
       None \<Rightarrow> None
     | Some isep \<Rightarrow>
         if isep > limit then None
         else Some (take (isep + length sep) buf, drop (isep + length sep) buf))"

definition readexactly :: "byte list \<Rightarrow> nat \<Rightarrow> (byte list \<times> byte list) option" where
  "readexactly buf n = (if n \<le> length buf then Some (take n buf, drop n buf) else None)"

text \<open>The loop over the header lines; \<open>None\<close> is the ValueError of \<^verbatim>\<open>int\<close>.\<close>

fun scan_content_length :: "pystr list \<Rightarrow> int option" where
  "scan_content_length [] = Some 0"
| "scan_content_length (line # lines) =
    (if startswith (py_lower line) (ascii ''content-length:'')
     then (case split1 line (ascii '':'') of
             [_, v] \<Rightarrow> py_int (py_strip v)
           | _ \<Rightarrow> None)
     else scan_content_length lines)"

text \<open>
  The reading part of the \<^verbatim>\<open>try\<close> block: \<open>Some (headers_data, body_data)\<close>, or
  \<open>None\<close> when an exception is raised.
\<close>

definition read_request :: "byte list \<Rightarrow> (byte list \<times> byte list) option" where
  "read_request buf =
    (case readuntil (2 ^ 20) buf crlf2 of
       None \<Rightarrow> None
     | Some (headers_data, rest) \<Rightarrow>
         (let headers_str = decode_ignore headers_data
          in case scan_content_length (py_split headers_str CRLF) of
               None \<Rightarrow> None
             | Some content_length \<Rightarrow>
                 if content_length > 0
                 then (case readexactly rest (nat content_length) of
                         None \<Rightarrow> None
                       | Some (body_data, _) \<Rightarrow> Some (headers_data, body_data))
                 else Some (headers_data, [])))"

text \<open>
  One public connection: \<open>wr_stream\<close> is what its reader delivers, \<open>wr_id\<close> the
  result of \<^verbatim>\<open>str(uuid.uuid4())\<close>, \<open>wr_time\<close> and \<open>wr_stored_at\<close> the two readings of
  the clock, \<open>wr_peername\<close> the peer address and \<open>wr_drain_ok\<close> whether the write to
  the tunnel drains.
\<close>

record web_request =
  wr_stream :: "byte list"
  wr_id :: pystr
  wr_time :: real
  wr_peername :: json
  wr_stored_at :: real
  wr_drain_ok :: bool

definition handle_web_request ::
  "env \<Rightarrow> web_request \<Rightarrow> conn \<Rightarrow> server_state \<Rightarrow> server_state" where
  "handle_web_request env rq writer s =
    (case read_request (wr_stream rq) of
       None \<Rightarrow> emit [(writer, Write resp_500_internal), (writer, Close)] s
     | Some (headers_data, body_data) \<Rightarrow>
         (let full_request_data = headers_data @ body_data;
              request_data = \<lparr>rd_id = wr_id rq, rd_timestamp = wr_time rq,
                              rd_data = decode_surrogateescape full_request_data,
                              rd_client_addr = wr_peername rq\<rparr>
          in forward_to_client env request_data writer (wr_stored_at rq) (wr_drain_ok rq) s))"

subsection \<open>\<^verbatim>\<open>handle_client\<close>\<close>

text \<open>
  The response is written to the public connection in chunks of 256 KiB, each followed
  by \<^verbatim>\<open>await web_writer.drain()\<close>. \<open>drain k\<close> says whether the drain after chunk
  number \<open>k\<close> returns; when it raises, the loop is left. The result is the list of the
  chunks handed to \<^verbatim>\<open>web_writer.write\<close>.
\<close>

definition chunk_size :: nat where
  "chunk_size = 262144"

function send_loop :: "(nat \<Rightarrow> bool) \<Rightarrow> byte list \<Rightarrow> nat \<Rightarrow> nat \<Rightarrow> byte list list" where
  "send_loop drain response_content total_sent k =
    (if total_sent < length response_content
     then (let chunk = take chunk_size (drop total_sent response_content)
           in chunk # (if drain k
                       then send_loop drain response_content (total_sent + length chunk) (Suc k)
                       else []))
     else [])"
  by pat_completeness auto
termination
  by (relation "measure (\<lambda>(drain, content, total_sent, k). length content - total_sent)")
     (auto simp: chunk_size_def)

declare send_loop.simps [simp del]

text \<open>
  The \<^verbatim>\<open>try\<close> ... \<^verbatim>\<open>finally\<close> around the delivery: \<^verbatim>\<open>data\<close> is
  \<^verbatim>\<open>response_data.get('data', '')\<close>. A value that is not a string has no
  \<^verbatim>\<open>encode\<close>, and a string with a surrogate outside U+DC80..U+DCFF does not encode;
  both exceptions are caught before anything is written. The public connection is
  closed in every case.
\<close>

definition deliver :: "conn \<Rightarrow> json \<Rightarrow> (nat \<Rightarrow> bool) \<Rightarrow> (conn \<times> action) list" where
  "deliver web_writer data drain =
    (case data of
       JStr text \<Rightarrow>
         (case utf8_encode SurrogateEscape text of
            Inr response_content \<Rightarrow>
              map (\<lambda>chunk. (web_writer, Write chunk)) (send_loop drain response_content 0 0)
          | Inl _ \<Rightarrow> [])
     | _ \<Rightarrow> []) @ [(web_writer, Close)]"

text \<open>The loop that refreshes \<^verbatim>\<open>last_seen\<close> of the first client record on this writer.\<close>

fun touch :: "conn \<Rightarrow> real \<Rightarrow> (pykey \<times> conn \<times> real) list \<Rightarrow> (pykey \<times> conn \<times> real) list" where
  "touch writer t [] = []"
| "touch writer t ((client_id, client_writer, last_seen) # cs) =
    (if client_writer = writer then (client_id, writer, t) # cs
     else (client_id, client_writer, last_seen) # touch writer t cs)"

text \<open>
  One turn of the \<^verbatim>\<open>while True\<close> loop, from the frame read to the end of the body.
  A frame is taken as already cut out of the stream: the bytes of the signature and the
  bytes of the payload (how the payload is delimited by repeated parsing of what has
  arrived depends on the timing of the network and is not modelled). \<open>fr_time\<close> is the
  clock and \<open>fr_drain\<close> the behaviour of the public connection. The result says
  whether the loop goes on (\<open>Continue\<close>) or an exception leaves it (\<open>Raised\<close>).
\<close>

record frame =
  fr_signature :: "byte list"
  fr_json :: "byte list"
  fr_time :: real
  fr_drain :: "nat \<Rightarrow> bool"

datatype ctl = Continue | Raised

definition handle_payload ::
  "conn \<Rightarrow> json \<Rightarrow> real \<Rightarrow> (nat \<Rightarrow> bool) \<Rightarrow> server_state \<Rightarrow> ctl \<times> server_state" where
  "handle_payload writer response_data t drain s =
    (case response_data of
       JObj d \<Rightarrow>
         if dict_get d ''type'' JNull = JStr (ascii ''register'')
         then (case key_of (dict_get d ''client_id'' JNull) of
                 None \<Rightarrow> (Raised, s)
               | Some client_id \<Rightarrow>
                   (Continue, s\<lparr>clients := AList.update client_id (writer, t) (clients s)\<rparr>))
         else (let s1 = s\<lparr>clients := touch writer t (clients s)\<rparr>
               in case key_of (dict_get d ''request_id'' JNull) of
                    None \<Rightarrow> (Raised, s1)
                  | Some request_id \<Rightarrow>
                      (case map_of (pending_requests s1) request_id of
                         None \<Rightarrow> (Continue, s1)
                       | Some (web_writer, _) \<Rightarrow>
                           (Continue,
                            emit (deliver web_writer (dict_get d ''data'' (JStr [])) drain)
                              (s1\<lparr>pending_requests :=
                                    AList.delete request_id (pending_requests s1)\<rparr>))))
     | _ \<Rightarrow> (Raised, s))"

definition handle_frame :: "env \<Rightarrow> conn \<Rightarrow> frame \<Rightarrow> server_state \<Rightarrow> ctl \<times> server_state" where
  "handle_frame env writer f s =
    (case utf8_decode Strict (fr_signature f) of
       None \<Rightarrow> (Raised, s)
     | Some signature \<Rightarrow>
         (case verify_signature env (secret_key s) (fr_json f) signature of
            None \<Rightarrow> (Raised, s)
          | Some False \<Rightarrow> (Continue, s)
          | Some True \<Rightarrow>
              (case utf8_decode Strict (fr_json f) of
                 None \<Rightarrow> (Raised, s)
               | Some text \<Rightarrow>
                   (case json_loads env text of
                      None \<Rightarrow> (Continue, s)
                    | Some response_data \<Rightarrow>
                        handle_payload writer response_data (fr_time f) (fr_drain f) s))))"







text \<open>The \<^verbatim>\<open>finally\<close> block: every client record on this writer goes, the writer is closed.\<close>

definition handle_client_finally :: "conn \<Rightarrow> server_state \<Rightarrow> server_state" where
  "handle_client_finally writer s =
     emit [(writer, Close)]
       (s\<lparr>clients := filter (\<lambda>(client_id, client_writer, _). client_writer \<noteq> writer) (clients s)\<rparr>)"

text \<open>
  The loop over the frames a tunnel connection delivers before it ends: the read after
  the last frame raises IncompleteReadError, and so does every exception inside the
  loop lead to the \<^verbatim>\<open>finally\<close> block.
\<close>

fun frame_loop :: "env \<Rightarrow> conn \<Rightarrow> frame list \<Rightarrow> server_state \<Rightarrow> server_state" where
  "frame_loop env writer [] s = s"
| "frame_loop env writer (f # fs) s =
    (case handle_frame env writer f s of
       (Continue, s') \<Rightarrow> frame_loop env writer fs s'
     | (Raised, s') \<Rightarrow> s')"

definition handle_client :: "env \<Rightarrow> conn \<Rightarrow> frame list \<Rightarrow> server_state \<Rightarrow> server_state" where
  "handle_client env writer frames s = handle_client_finally writer (frame_loop env writer frames s)"

subsection \<open>\<^verbatim>\<open>cleanup_inactive_clients\<close>\<close>

definition cleanup_inactive_clients :: "real \<Rightarrow> server_state \<Rightarrow> server_state" where
  "cleanup_inactive_clients current_time s =
     s\<lparr>clients := filter (\<lambda>(client_id, writer, last_seen). \<not> current_time - last_seen > 300)
                     (clients s)\<rparr>"

subsection \<open>The server as a whole\<close>

text \<open>
  The tasks of the event loop touch the state of the server between two
  \<^verbatim>\<open>await\<close>s only, so a run of the server is a sequence of events: a public
  connection is served, a frame arrives on a tunnel connection (an exception in the
  loop runs the \<^verbatim>\<open>finally\<close> block at once), a tunnel connection ends, the periodic
  task sweeps the registry.
\<close>

datatype event =
    WebRequest conn web_request
  | TunnelFrame conn frame
  | TunnelEnd conn
  | Sweep real

fun step :: "env \<Rightarrow> server_state \<Rightarrow> event \<Rightarrow> server_state" where
  "step env s (WebRequest writer rq) = handle_web_request env rq writer s"
| "step env s (TunnelFrame writer f) =
    (case handle_frame env writer f s of
       (Continue, s') \<Rightarrow> s'
     | (Raised, s') \<Rightarrow> handle_client_finally writer s')"
| "step env s (TunnelEnd writer) = handle_client_finally writer s"
| "step env s (Sweep current_time) = cleanup_inactive_clients current_time s"

definition run :: "env \<Rightarrow> server_state \<Rightarrow> event list \<Rightarrow> server_state" where
  "run env s evs = foldl (step env) s evs"

section \<open>The Tunnel Client: \<^verbatim>\<open>TCPTunnelClient\<close>\<close>

record client =
  cl_secret_key :: "byte list"
  local_api_url :: pystr

text \<open>
  The local service is outside the tunnel: a call of \<^verbatim>\<open>session.request\<close> either
  gives a response (status, reason, header pairs, the body \<^verbatim>\<open>await response.read()\<close>
  returns) or raises, and then \<open>Inl\<close> carries \<^verbatim>\<open>str(e)\<close>.
\<close>

record http_call =
  hc_method :: pystr
  hc_url :: pystr
  hc_headers :: "(pystr \<times> pystr) list"
  hc_data :: "byte list option"

record http_response =
  hr_status :: nat
  hr_reason :: pystr
  hr_headers :: "(pystr \<times> pystr) list"
  hr_body :: "byte list"

type_synonym local_api = "http_call \<Rightarrow> pystr + http_response"

record response_data =
  request_id :: json
  data :: pystr

definition response_json :: "response_data \<Rightarrow> json" where
  "response_json rd = JObj [(ascii ''request_id'', request_id rd), (ascii ''data'', JStr (data rd))]"

subsection \<open>The texts of the exceptions\<close>

definition msg_no_header_end :: pystr where
  "msg_no_header_end =
     [0x65E0, 0x6548, 0x7684, 0x48, 0x54, 0x54, 0x50, 0x8BF7, 0x6C42, 0xFF0C, 0x672A, 0x627E,
      0x5230, 0x5934, 0x90E8, 0x7ED3, 0x675F, 0x6807, 0x8BB0]"

definition msg_bad_request_line :: pystr where
  "msg_bad_request_line = [0x65E0, 0x6548, 0x7684, 0x48, 0x54, 0x54, 0x50, 0x8BF7, 0x6C42, 0x884C]"

definition hex_digit :: "nat \<Rightarrow> nat" where
  "hex_digit n = (if n < 10 then 48 + n else 87 + n)"

text \<open>\<^verbatim>\<open>str(e)\<close> of the UnicodeEncodeError for the range \<open>(start, end)\<close> of \<open>s\<close>.\<close>

definition encode_error_message :: "pystr \<Rightarrow> nat \<times> nat \<Rightarrow> pystr" where
  "encode_error_message s r =
    (case r of (start, end) \<Rightarrow>
       [39] @ ascii ''utf-8'' @ [39] @ ascii '' codec can'' @ [39] @ ascii ''t encode '' @
       (if end = Suc start
        then (case drop start s of
                [] \<Rightarrow> []
              | c # _ \<Rightarrow>
                  ascii ''character '' @ [39, 92, 117] @
                  map hex_digit [c div 4096 mod 16, c div 256 mod 16, c div 16 mod 16, c mod 16] @
                  [39] @ ascii '' in position '' @ str_nat start)
        else ascii ''characters in position '' @ str_nat start @ ascii ''-'' @ str_nat (end - 1)) @
       ascii '': surrogates not allowed'')"

text \<open>
  The exception when \<^verbatim>\<open>request_data['data']\<close> is not a string: \<^verbatim>\<open>len\<close> fails on
  what has no length, \<^verbatim>\<open>find\<close> is missing on lists and dictionaries.
\<close>

definition no_len :: "string \<Rightarrow> pystr" where
  "no_len ty = ascii ''object of type '' @ [39] @ ascii ty @ [39] @ ascii '' has no len()''"

definition no_find :: "string \<Rightarrow> pystr" where
  "no_find ty = [39] @ ascii ty @ [39] @ ascii '' object has no attribute '' @ [39] @ ascii ''find'' @ [39]"

fun not_a_string :: "json \<Rightarrow> pystr" where
  "not_a_string JNull = no_len ''NoneType''"
| "not_a_string (JBool _) = no_len ''bool''"
| "not_a_string (JInt _) = no_len ''int''"
| "not_a_string (JFloat _) = no_len ''float''"
| "not_a_string (JArr _) = no_find ''list''"
| "not_a_string (JObj _) = no_find ''dict''"
| "not_a_string (JStr _) = []"

subsection \<open>\<^verbatim>\<open>forward_request_to_local_api\<close>\<close>

definition py_join :: "pystr \<Rightarrow> pystr list \<Rightarrow> pystr" where
  "py_join sep xs = (case xs of [] \<Rightarrow> [] | x # r \<Rightarrow> x @ concat (map (\<lambda>y. sep @ y) r))"

text \<open>The loop over \<^verbatim>\<open>lines[1:]\<close> that fills the dictionary \<^verbatim>\<open>headers\<close>.\<close>

definition parse_headers :: "pystr list \<Rightarrow> (pystr \<times> pystr) list" where
  "parse_headers lines =
     foldl (\<lambda>headers line.
              if py_in (ascii '':'') line
              then (case split1 line (ascii '':'') of
                      [key, v] \<Rightarrow> AList.update (py_strip key) (py_strip v) headers
                    | _ \<Rightarrow> headers)
              else headers) [] lines"

text \<open>
  The \<^verbatim>\<open>try\<close> block up to the call of \<^verbatim>\<open>session.request\<close>: the request that
  will be issued, or \<open>Inl\<close> with the text of the exception raised before (the two
  ValueErrors of the parser, or the body that does not encode). The probe of the
  local address with \<^verbatim>\<open>socket.create_connection\<close> swallows its exceptions and
  changes nothing here.
\<close>

definition build_call :: "client \<Rightarrow> pystr \<Rightarrow> pystr + http_call" where
  "build_call c raw_request =
    (case py_find raw_request (CRLF @ CRLF) of
       None \<Rightarrow> Inl msg_no_header_end
     | Some header_end_index \<Rightarrow>
         (let headers_part = take header_end_index raw_request;
              body_part = drop (header_end_index + 4) raw_request
          in case py_split headers_part CRLF of
               [] \<Rightarrow> Inl (ascii ''list index out of range'')
             | request_line # header_lines \<Rightarrow>
                 (let parts = py_split request_line (ascii '' '')
                  in if length parts < 3 then Inl msg_bad_request_line
                     else
                       (let method = parts ! 0;
                            path = parts ! 1;
                            headers = parse_headers header_lines;
                            api_url = py_rstrip (local_api_url c) (ascii ''/'') @ path;
                            content_type =
                              (case map_of headers (ascii ''Content-Type'') of
                                 None \<Rightarrow> [] | Some v \<Rightarrow> v)
                        in if py_in (ascii ''multipart/form-data'') content_type
                           then (case utf8_encode SurrogateEscape raw_request of
                                   Inl r \<Rightarrow> Inl (encode_error_message raw_request r)
                                 | Inr request_bytes \<Rightarrow>
                                     Inr \<lparr>hc_method = method, hc_url = api_url,
                                          hc_headers = headers,
                                          hc_data = Some (drop (header_end_index + 4) request_bytes)\<rparr>)
                           else if body_part \<noteq> []
                           then (case utf8_encode Strict body_part of
                                   Inl r \<Rightarrow> Inl (encode_error_message body_part r)
                                 | Inr body_bytes \<Rightarrow>
                                     Inr \<lparr>hc_method = method, hc_url = api_url,
                                          hc_headers = headers, hc_data = Some body_bytes\<rparr>)
                           else Inr \<lparr>hc_method = method, hc_url = api_url,
                                     hc_headers = headers, hc_data = None\<rparr>))))"

text \<open>The wire text built from the response of the local service.\<close>

definition response_text :: "http_response \<Rightarrow> pystr" where
  "response_text response =
    (let response_headers =
           map (\<lambda>(key, v). key @ ascii '': '' @ v)
             (filter (\<lambda>(key, v). py_lower key \<noteq> ascii ''transfer-encoding'') (hr_headers response))
     in ascii ''HTTP/1.1 '' @ str_nat (hr_status response) @ ascii '' '' @ hr_reason response @ CRLF
        @ py_join CRLF response_headers @ CRLF
        @ CRLF
        @ decode_ignore (hr_body response))"

text \<open>The response of the outer \<^verbatim>\<open>except\<close> block.\<close>

definition error_response :: "json \<Rightarrow> pystr \<Rightarrow> response_data" where
  "error_response rid msg =
     \<lparr>request_id = rid,
      data = ascii ''HTTP/1.1 500 Internal Server Error'' @ CRLF
             @ ascii ''Content-Type: text/plain'' @ CRLF
             @ CRLF
             @ ascii ''Error forwarding request to local API: '' @ msg\<rparr>"

text \<open>
  \<open>rid\<close> is \<^verbatim>\<open>request_data['id']\<close> and \<open>raw\<close> is \<^verbatim>\<open>request_data['data']\<close>
  (\<open>None\<close> when the key is missing, a KeyError). The result is the request issued to
  the local service, if one was, and the dictionary returned.
\<close>

definition forward_request_to_local_api ::
  "client \<Rightarrow> local_api \<Rightarrow> json \<Rightarrow> json option \<Rightarrow> http_call option \<times> response_data" where
  "forward_request_to_local_api c local rid raw =
    (case raw of
       None \<Rightarrow> (None, error_response rid ([39] @ ascii ''data'' @ [39]))
     | Some (JStr raw_request) \<Rightarrow>
         (case build_call c raw_request of
            Inl msg \<Rightarrow> (None, error_response rid msg)
          | Inr call \<Rightarrow>
              (Some call,
               case local call of
                 Inl msg \<Rightarrow> error_response rid msg
               | Inr response \<Rightarrow> \<lparr>request_id = rid, data = response_text response\<rparr>))
     | Some v \<Rightarrow> (None, error_response rid (not_a_string v)))"

subsection \<open>\<^verbatim>\<open>send_response_to_server\<close>, \<^verbatim>\<open>handle_request\<close>, \<^verbatim>\<open>receive_messages\<close>\<close>

text \<open>
  What the client does, in order: a request issued to the local service, a chunk
  handed to \<^verbatim>\<open>self.writer.write\<close>. The frame goes out in chunks of 256 KiB with the
  loop of the server's delivery; an exception (while the frame is built, or in
  \<^verbatim>\<open>drain\<close>) is caught and printed.
\<close>

datatype client_event = Dispatched http_call | Emitted "byte list"

definition send_response_to_server ::
  "env \<Rightarrow> client \<Rightarrow> (nat \<Rightarrow> bool) \<Rightarrow> response_data \<Rightarrow> client_event list" where
  "send_response_to_server env c drain rd =
    (case frame_message env (cl_secret_key c) (response_json rd) of
       None \<Rightarrow> []
     | Some message \<Rightarrow> map Emitted (send_loop drain message 0 0))"

text \<open>
  \<^verbatim>\<open>handle_request\<close> catches every exception: a payload that is not a dictionary
  with the key \<^verbatim>\<open>id\<close> fails at the first \<^verbatim>\<open>print\<close> and nothing is sent.
\<close>

definition handle_request ::
  "env \<Rightarrow> client \<Rightarrow> local_api \<Rightarrow> (nat \<Rightarrow> bool) \<Rightarrow> json \<Rightarrow> client_event list" where
  "handle_request env c local drain request_data =
    (case request_data of
       JObj d \<Rightarrow>
         (case map_of d (ascii ''id'') of
            None \<Rightarrow> []
          | Some rid \<Rightarrow>
              (case forward_request_to_local_api c local rid (map_of d (ascii ''data'')) of
                 (call, response_data) \<Rightarrow>
                   (case call of None \<Rightarrow> [] | Some hc \<Rightarrow> [Dispatched hc])
                   @ send_response_to_server env c drain response_data))
     | _ \<Rightarrow> [])"

text \<open>
  A frame received by the client, with the behaviour of the world while it is served:
  the local service and the drains of the tunnel writer.
\<close>

record client_frame =
  cf_signature :: "byte list"
  cf_json :: "byte list"
  cf_local :: local_api
  cf_drain :: "nat \<Rightarrow> bool"

definition receive_frame :: "env \<Rightarrow> client \<Rightarrow> client_frame \<Rightarrow> ctl \<times> client_event list" where
  "receive_frame env c f =
    (case utf8_decode Strict (cf_signature f) of
       None \<Rightarrow> (Raised, [])
     | Some signature \<Rightarrow>
         (case verify_signature env (cl_secret_key c) (cf_json f) signature of
            None \<Rightarrow> (Raised, [])
          | Some False \<Rightarrow> (Continue, [])
          | Some True \<Rightarrow>
              (case utf8_decode Strict (cf_json f) of
                 None \<Rightarrow> (Raised, [])
               | Some text \<Rightarrow>
                   (case json_loads env text of
                      None \<Rightarrow> (Continue, [])
                    | Some request_data \<Rightarrow>
                        (Continue, handle_request env c (cf_local f) (cf_drain f) request_data)))))"

text \<open>
  The loop \<^verbatim>\<open>while self.connected\<close> over the frames the server sends; each event
  carries the number of the frame it was done for. The loop awaits
  \<^verbatim>\<open>handle_request\<close> before it reads again.
\<close>

fun receive_from :: "env \<Rightarrow> client \<Rightarrow> nat \<Rightarrow> client_frame list \<Rightarrow> (nat \<times> client_event) list" where
  "receive_from env c n [] = []"
| "receive_from env c n (f # fs) =
    (case receive_frame env c f of
       (Continue, evs) \<Rightarrow> map (Pair n) evs @ receive_from env c (Suc n) fs
     | (Raised, evs) \<Rightarrow> map (Pair n) evs)"

definition receive_messages :: "env \<Rightarrow> client \<Rightarrow> client_frame list \<Rightarrow> (nat \<times> client_event) list" where
  "receive_messages env c frames = receive_from env c 0 frames"

section \<open>Notions used to state the claims\<close>

text \<open>
  The digest of HMAC-SHA256 is written as 64 hexadecimal digits. The model needs less:
  \<open>digest_ok\<close> says that the digest is ASCII text shorter than \<open>2 ^ 32\<close> characters, so
  that a frame can be built from it.
\<close>

definition digest_ok :: "env \<Rightarrow> bool" where
  "digest_ok env \<longleftrightarrow>
     (\<forall>key data. list_all (\<lambda>c. c < 128) (hmac_hexdigest env key data)
                 \<and> length (hmac_hexdigest env key data) < 2 ^ 32)"

text \<open>
  The check of the signature of a frame as \<^verbatim>\<open>handle_client\<close> makes it: the bytes are
  decoded and compared with the expected digest. \<open>Some True\<close> is a valid signature and
  \<open>Some False\<close> one that differs from the digest; \<open>None\<close> is an exception, raised when
  the bytes are not UTF-8 or the text is not ASCII. The signature fails verification
  when the result is not \<open>Some True\<close>.
\<close>

definition signature_check :: "env \<Rightarrow> byte list \<Rightarrow> frame \<Rightarrow> bool option" where
  "signature_check env key f =
    (case utf8_decode Strict (fr_signature f) of
       None \<Rightarrow> None
     | Some signature \<Rightarrow> verify_signature env key (fr_json f) signature)"

text \<open>
  \<open>answers env key rid e\<close>: the event is a frame on a tunnel connection that is validly
  signed under \<open>key\<close> and whose payload is a JSON object with the request id \<open>rid\<close>.
  \<open>undisturbed env key rid web e\<close>: the event is no such frame, and it is none of
  the events that do not occur while the public connection \<open>web\<close> waits under the id
  \<open>rid\<close>: a second request read from \<open>web\<close>, a tunnel frame or a tunnel end on
  \<open>web\<close> (it is not a tunnel connection), a new request for which \<^verbatim>\<open>uuid4\<close>
  gives \<open>rid\<close> again.
\<close>

definition answers :: "env \<Rightarrow> byte list \<Rightarrow> pykey \<Rightarrow> event \<Rightarrow> bool" where
  "answers env key rid e =
    (case e of
       TunnelFrame w f \<Rightarrow>
         (case utf8_decode Strict (fr_signature f) of
            None \<Rightarrow> False
          | Some sg \<Rightarrow>
              verify_signature env key (fr_json f) sg = Some True \<and>
              (case utf8_decode Strict (fr_json f) of
                 None \<Rightarrow> False
               | Some text \<Rightarrow>
                   (case json_loads env text of
                      Some (JObj d) \<Rightarrow> key_of (dict_get d ''request_id'' JNull) = Some rid
                    | _ \<Rightarrow> False)))
     | _ \<Rightarrow> False)"

definition undisturbed :: "env \<Rightarrow> byte list \<Rightarrow> pykey \<Rightarrow> conn \<Rightarrow> event \<Rightarrow> bool" where
  "undisturbed env key rid web e \<longleftrightarrow>
     \<not> answers env key rid e \<and>
     (case e of
        WebRequest w rq \<Rightarrow> w \<noteq> web \<and> KStr (wr_id rq) \<noteq> rid
      | TunnelFrame w f \<Rightarrow> w \<noteq> web
      | TunnelEnd w \<Rightarrow> w \<noteq> web
      | Sweep t \<Rightarrow> True)"

text \<open>
  \<open>malformed_request raw\<close>, in the words of C6: the text has no CRLF CRLF blank line,
  or its start line has fewer than three parts separated by spaces.
\<close>

definition malformed_request :: "pystr \<Rightarrow> bool" where
  "malformed_request raw \<longleftrightarrow>
     (case py_find raw (CRLF @ CRLF) of
        None \<Rightarrow> True
      | Some i \<Rightarrow>
          (case py_split (take i raw) CRLF of
             [] \<Rightarrow> True
           | start_line # _ \<Rightarrow> length (py_split start_line (ascii '' '')) < 3))"

section \<open>Concrete inputs\<close>

text \<open>
  The theorems below hold for every choice of the library functions. To run the model
  on concrete inputs, \<open>demo_env\<close> stands in for them: a digest of three characters
  that depends on the lengths of key and data, a serialiser that writes every field of
  a dictionary as \<^verbatim>\<open>key=value;\<close> (the value when it is a string), and a parser
  that knows the payloads below. A frame made by \<open>signed_frame\<close> carries the
  signature its payload has under \<open>demo_key\<close>.
\<close>

definition register_payload :: json where
  "register_payload =
     JObj [(ascii ''type'', JStr (ascii ''register'')), (ascii ''client_id'', JStr (ascii ''c1'')),
           (ascii ''timestamp'', JFloat 1)]"

definition response_payload :: json where
  "response_payload =
     JObj [(ascii ''request_id'', JStr (ascii ''r1'')),
           (ascii ''data'', JStr (ascii ''HTTP/1.1 200 OK'' @ CRLF @ CRLF @ ascii ''hi''))]"

definition request_payload_1 :: json where
  "request_payload_1 =
     JObj [(ascii ''id'', JStr (ascii ''r1'')), (ascii ''timestamp'', JFloat 10),
           (ascii ''data'', JStr (ascii ''GET /health HTTP/1.1'' @ CRLF @ CRLF)),
           (ascii ''client_addr'', JNull)]"

definition request_payload_2 :: json where
  "request_payload_2 =
     JObj [(ascii ''id'', JStr (ascii ''r2'')), (ascii ''timestamp'', JFloat 12),
           (ascii ''data'', JStr (ascii ''GET /x HTTP/1.1'' @ CRLF @ CRLF)),
           (ascii ''client_addr'', JNull)]"

definition demo_dumps :: "json \<Rightarrow> byte list" where
  "demo_dumps v =
    (case v of
       JObj d \<Rightarrow>
         concat (map (\<lambda>(k, x). map word_of_nat
                                 (k @ [61] @ (case x of JStr t \<Rightarrow> t | _ \<Rightarrow> []) @ [59])) d)
     | _ \<Rightarrow> bytes_of ''{}'')"

definition demo_loads :: "pystr \<Rightarrow> json option" where
  "demo_loads text =
     find (\<lambda>p. demo_dumps p = map word_of_nat text)
       [register_payload, response_payload, request_payload_1, request_payload_2]"

definition demo_env :: env where
  "demo_env =
     \<lparr>hmac_hexdigest = (\<lambda>key data. ascii ''5f'' @ [48 + (length key + length data) mod 10]),
      json_dumps = demo_dumps,
      json_loads = demo_loads\<rparr>"

definition demo_key :: "byte list" where
  "demo_key = bytes_of ''k''"

definition signed_frame :: "json \<Rightarrow> real \<Rightarrow> frame" where
  "signed_frame payload t =
     \<lparr>fr_signature = map word_of_nat (hmac_hexdigest demo_env demo_key (demo_dumps payload)),
      fr_json = demo_dumps payload, fr_time = t, fr_drain = (\<lambda>k. True)\<rparr>"

definition empty_server :: server_state where
  "empty_server = \<lparr>secret_key = demo_key, clients = [], pending_requests = [], effects = []\<rparr>"

definition one_client :: server_state where
  "one_client = empty_server\<lparr>clients := [(KStr (ascii ''c1''), 1, 0)]\<rparr>"

definition register_frame :: frame where
  "register_frame = signed_frame register_payload 20"

definition response_frame :: frame where
  "response_frame = signed_frame response_payload 30"

definition forged_frame :: frame where
  "forged_frame = response_frame\<lparr>fr_signature := bytes_of ''0000''\<rparr>"

definition garbled_frame :: frame where
  "garbled_frame = response_frame\<lparr>fr_signature := [0xFF]\<rparr>"

definition get_request :: web_request where
  "get_request =
     \<lparr>wr_stream = bytes_of ''GET /health HTTP/1.1'' @ crlf2, wr_id = ascii ''r1'', wr_time = 10,
      wr_peername = JNull, wr_stored_at = 11, wr_drain_ok = True\<rparr>"

definition chunked_request :: web_request where
  "chunked_request =
     \<lparr>wr_stream = bytes_of ''POST /upload HTTP/1.1'' @ [13, 10]
                    @ bytes_of ''Transfer-Encoding: chunked'' @ crlf2
                    @ bytes_of ''5'' @ [13, 10] @ bytes_of ''hello'' @ [13, 10]
                    @ bytes_of ''0'' @ crlf2,
      wr_id = ascii ''r2'', wr_time = 10, wr_peername = JNull, wr_stored_at = 11,
      wr_drain_ok = True\<rparr>"

lemmas demo_defs = demo_env_def demo_key_def empty_server_def one_client_def register_frame_def
  response_frame_def forged_frame_def register_payload_def response_payload_def
  request_payload_1_def request_payload_2_def demo_dumps_def demo_loads_def signed_frame_def

lemmas eval_defs = handle_frame_def handle_payload_def verify_signature_def compare_digest_def
  utf8_decode.simps bytes_of_def ascii_def dict_get_def emit_def deliver_def utf8_encode_def
  is_surrogate_def encode_cp_def send_loop.simps chunk_size_def CRLF_def is_closed_def
  handle_client_finally_def

lemmas web_defs = handle_web_request_def read_request_def readuntil_def readexactly_def
  py_split.simps py_lower_def decode_ignore_def decode_surrogateescape_def
  forward_to_client_def frame_message_def create_signature_def request_json_def to_bytes4_def
  crlf2_def run_def get_request_def chunked_request_def

text \<open>
  A client in front of a local service at port 5001, two responses of that service (one
  with a body that is not UTF-8), and the frame that carries a payload to the client.
\<close>

definition demo_client :: client where
  "demo_client = \<lparr>cl_secret_key = demo_key, local_api_url = ascii ''http://localhost:5001/''\<rparr>"

definition binary_response :: http_response where
  "binary_response =
     \<lparr>hr_status = 200, hr_reason = ascii ''OK'',
      hr_headers = [(ascii ''Content-Type'', ascii ''application/octet-stream''),
                    (ascii ''Transfer-Encoding'', ascii ''chunked'')],
      hr_body = [0xFF]\<rparr>"

definition text_response :: http_response where
  "text_response =
     \<lparr>hr_status = 200, hr_reason = ascii ''OK'',
      hr_headers = [(ascii ''Content-Type'', ascii ''text/plain'')],
      hr_body = bytes_of ''ok''\<rparr>"

definition client_frame_of :: "json \<Rightarrow> http_response \<Rightarrow> client_frame" where
  "client_frame_of payload response =
     \<lparr>cf_signature = map word_of_nat (hmac_hexdigest demo_env demo_key (demo_dumps payload)),
      cf_json = demo_dumps payload, cf_local = (\<lambda>call. Inr response), cf_drain = (\<lambda>k. True)\<rparr>"

lemmas client_defs = demo_client_def binary_response_def text_response_def client_frame_of_def
  forward_request_to_local_api_def build_call_def parse_headers_def py_in_def py_rstrip_def
  response_text_def py_join_def error_response_def str_nat.simps handle_request_def
  send_response_to_server_def response_json_def receive_frame_def receive_messages_def
  split1_def py_strip_def is_space_def msg_no_header_end_def msg_bad_request_line_def

section \<open>Lemmas about the delivery loop and the effects\<close>

lemma written_to_append: "written_to w (a @ b) = written_to w a @ written_to w b"
  by (induction w a rule: written_to.induct) auto


lemma send_loop_all:
  "concat (send_loop (\<lambda>k. True) content n k) = drop n content"
proof (induction "\<lambda>k::nat. True" content n k rule: send_loop.induct)
  case (1 content total_sent k)
  show ?case
  proof (cases "total_sent < length content")
    case True
    have "concat (send_loop (\<lambda>k. True) content total_sent k)
          = take chunk_size (drop total_sent content)
            @ concat (send_loop (\<lambda>k. True) content
                        (total_sent + length (take chunk_size (drop total_sent content))) (Suc k))"
      using True by (subst send_loop.simps) (simp add: Let_def)
    also have "\<dots> = take chunk_size (drop total_sent content)
                     @ drop (total_sent + length (take chunk_size (drop total_sent content))) content"
      using "1.hyps" [OF True refl] by simp
    also have "\<dots> = drop total_sent content"
    proof -
      have "drop (total_sent + length (take chunk_size (drop total_sent content))) content
            = drop chunk_size (drop total_sent content)"
        by (simp add: min_def add.commute)
      then have "take chunk_size (drop total_sent content)
                 @ drop (total_sent + length (take chunk_size (drop total_sent content))) content
                 = take chunk_size (drop total_sent content)
                   @ drop chunk_size (drop total_sent content)"
        by (rule arg_cong)
      then show ?thesis by (simp only: append_take_drop_id)
    qed
    finally show ?thesis .
  next
    case False
    then show ?thesis by (subst send_loop.simps) simp
  qed
qed

lemma send_loop_concat:
  assumes "\<And>k. drain k"
  shows "concat (send_loop drain content n k) = drop n content"
proof -
  have "drain = (\<lambda>k. True)" using assms by (intro ext) simp
  then show ?thesis by (simp add: send_loop_all)
qed





lemma verify_signature_loads [simp]:
  "verify_signature (env\<lparr>json_loads := l\<rparr>) key d sg = verify_signature env key d sg"
  by (simp add: verify_signature_def)

lemma finally_clients:
  "c \<in> set (clients (handle_client_finally w s)) \<longleftrightarrow> c \<in> set (clients s) \<and> fst (snd c) \<noteq> w"
  by (auto simp: handle_client_finally_def emit_def)

lemma map_of_delete_other: "k \<noteq> rid \<Longrightarrow> map_of (AList.delete rid al) k = map_of al k"
  by (induction al) auto

lemma encode_ascii:
  "list_all (\<lambda>c. c < 128) s \<Longrightarrow> utf8_encode_from Strict i s = Inr (map word_of_nat s)"
  by (induction s arbitrary: i) (auto simp: is_surrogate_def encode_cp_def)

lemma frame_message_ok:
  assumes "digest_ok env"
  shows "\<exists>message. frame_message env key payload = Some message"
proof -
  let ?sig = "hmac_hexdigest env key (json_dumps env payload)"
  have "list_all (\<lambda>c. c < 128) ?sig" and "length ?sig < 2 ^ 32"
    using assms by (auto simp: digest_ok_def)
  then show ?thesis
    by (simp add: frame_message_def create_signature_def utf8_encode_def encode_ascii
                  to_bytes4_def Let_def)
qed

lemma deliver_on_writer: "x \<in> set (deliver web_writer d drain) \<Longrightarrow> fst x = web_writer"
  by (auto simp: deliver_def split: json.splits sum.splits)

lemma handle_payload_cases:
  assumes "handle_payload w rd t drain s = (k, s')"
  shows "secret_key s' = secret_key s \<and>
         (pending_requests s' = pending_requests s \<and> effects s' = effects s
          \<or> (\<exists>d rid' web_writer t0.
                rd = JObj d \<and> key_of (dict_get d ''request_id'' JNull) = Some rid'
                \<and> map_of (pending_requests s) rid' = Some (web_writer, t0)
                \<and> pending_requests s' = AList.delete rid' (pending_requests s)
                \<and> effects s' = effects s @ deliver web_writer (dict_get d ''data'' (JStr [])) drain))"
proof (cases rd)
  case (JObj d)
  show ?thesis
  proof (cases "dict_get d ''type'' JNull = JStr (ascii ''register'')")
    case True
    with JObj assms show ?thesis
      by (auto simp: handle_payload_def split: option.splits)
  next
    case False
    show ?thesis
    proof (cases "key_of (dict_get d ''request_id'' JNull)")
      case None
      with JObj False assms show ?thesis
        by (auto simp: handle_payload_def Let_def)
    next
      case (Some rid')
      show ?thesis
      proof (cases "map_of (pending_requests s) rid'")
        case None
        with JObj False Some assms show ?thesis
          by (auto simp: handle_payload_def Let_def)
      next
        case (Some r)
        obtain web_writer t0 where r: "r = (web_writer, t0)" by (cases r)
        from JObj False \<open>key_of (dict_get d ''request_id'' JNull) = Some rid'\<close> Some r assms
        have "s' = emit (deliver web_writer (dict_get d ''data'' (JStr [])) drain)
                     (s\<lparr>clients := touch w t (clients s),
                        pending_requests := AList.delete rid' (pending_requests s)\<rparr>)"
          by (auto simp: handle_payload_def Let_def)
        with JObj \<open>key_of (dict_get d ''request_id'' JNull) = Some rid'\<close> Some r show ?thesis
          by (auto simp: emit_def)
      qed
    qed
  qed
qed (insert assms, auto simp: handle_payload_def)

lemma handle_frame_cases:
  assumes "handle_frame env w f s = (k, s')"
  shows "secret_key s' = secret_key s \<and>
         (pending_requests s' = pending_requests s \<and> effects s' = effects s
          \<or> (\<exists>rid' web_writer t0.
                answers env (secret_key s) rid' (TunnelFrame w f)
                \<and> map_of (pending_requests s) rid' = Some (web_writer, t0)
                \<and> pending_requests s' = AList.delete rid' (pending_requests s)
                \<and> (\<exists>d. effects s' = effects s @ deliver web_writer d (fr_drain f))))"
proof (cases "utf8_decode Strict (fr_signature f)")
  case None
  with assms show ?thesis by (auto simp: handle_frame_def)
next
  case (Some sg)
  note sg = this
  show ?thesis
  proof (cases "verify_signature env (secret_key s) (fr_json f) sg = Some True")
    case False
    with sg assms show ?thesis
      by (auto simp: handle_frame_def split: option.splits bool.splits)
  next
    case True
    note valid = this
    show ?thesis
    proof (cases "utf8_decode Strict (fr_json f)")
      case None
      with sg valid assms show ?thesis by (auto simp: handle_frame_def)
    next
      case (Some ptext)
      note ptext = this
      show ?thesis
      proof (cases "json_loads env ptext")
        case None
        with sg valid ptext assms show ?thesis by (auto simp: handle_frame_def)
      next
        case (Some rd)
        with sg valid ptext assms
        have hp: "handle_payload w rd (fr_time f) (fr_drain f) s = (k, s')"
          by (simp add: handle_frame_def)
        from handle_payload_cases [OF hp] sg valid ptext Some show ?thesis
          by (fastforce simp: answers_def)
      qed
    qed
  qed
qed

lemma is_closed_append: "is_closed w (a @ b) \<longleftrightarrow> is_closed w a \<or> (w, Close) \<in> set b"
  by (auto simp: is_closed_def)

lemma set_update_subset: "set (AList.update k v al) \<subseteq> insert (k, v) (set al)"
  by (induction al) auto

lemma set_delete_subset: "set (AList.delete k al) \<subseteq> set al"
  by (auto simp: AList.delete_eq)

lemma web_request_cases:
  "\<exists>new. effects (handle_web_request env rq w s) = effects s @ new
         \<and> (\<forall>x \<in> set new. snd x = Close \<longrightarrow> fst x = w)
         \<and> secret_key (handle_web_request env rq w s) = secret_key s
         \<and> (pending_requests (handle_web_request env rq w s) = pending_requests s
            \<or> pending_requests (handle_web_request env rq w s)
               = AList.update (KStr (wr_id rq)) (w, wr_stored_at rq) (pending_requests s))"
  by (auto simp: handle_web_request_def forward_to_client_def emit_def Let_def
           split: option.splits list.splits prod.splits)

lemma step_secret_key: "secret_key (step env s e) = secret_key s"
proof (cases e)
  case (WebRequest w rq)
  then show ?thesis using web_request_cases [of env rq w s] by auto
next
  case (TunnelFrame w f)
  obtain k s1 where h: "handle_frame env w f s = (k, s1)" by (cases "handle_frame env w f s")
  from handle_frame_cases [OF h] have "secret_key s1 = secret_key s" by simp
  with TunnelFrame h show ?thesis
    by (cases k) (simp_all add: handle_client_finally_def emit_def)
next
  case (TunnelEnd w)
  then show ?thesis by (simp add: handle_client_finally_def emit_def)
next
  case (Sweep t)
  then show ?thesis by (simp add: cleanup_inactive_clients_def)
qed

lemma step_removes_only_answered:
  assumes "map_of (pending_requests s) rid = Some r"
    and "map_of (pending_requests (step env s e)) rid = None"
  shows "answers env (secret_key s) rid e"
proof (cases e)
  case (WebRequest w rq)
  with assms web_request_cases [of env rq w s] show ?thesis
    by (auto simp: AList.update_conv' split: if_splits)
next
  case (TunnelFrame w f)
  obtain k s1 where h: "handle_frame env w f s = (k, s1)" by (cases "handle_frame env w f s")
  have p: "pending_requests (step env s e) = pending_requests s1"
    using TunnelFrame h by (cases k) (simp_all add: handle_client_finally_def emit_def)
  from handle_frame_cases [OF h] consider
      "pending_requests s1 = pending_requests s"
    | rid' where "answers env (secret_key s) rid' (TunnelFrame w f)"
        "pending_requests s1 = AList.delete rid' (pending_requests s)"
    by blast
  then show ?thesis
  proof cases
    case 1
    with assms p show ?thesis by simp
  next
    case 2
    show ?thesis
    proof (cases "rid' = rid")
      case True
      with 2 TunnelFrame show ?thesis by simp
    next
      case False
      then have "map_of (AList.delete rid' (pending_requests s)) rid = map_of (pending_requests s) rid"
        by (simp add: map_of_delete_other)
      with assms p 2 show ?thesis by simp
    qed
  qed
next
  case (TunnelEnd w)
  with assms show ?thesis by (simp add: handle_client_finally_def emit_def)
next
  case (Sweep t)
  with assms show ?thesis by (simp add: cleanup_inactive_clients_def)
qed

lemma step_undisturbed:
  assumes rec: "map_of (pending_requests s) rid = Some (web, t)"
    and uniq: "\<forall>p \<in> set (pending_requests s). fst (snd p) = web \<longrightarrow> fst p = rid"
    and und: "undisturbed env (secret_key s) rid web e"
  shows "map_of (pending_requests (step env s e)) rid = Some (web, t)
         \<and> (\<forall>p \<in> set (pending_requests (step env s e)). fst (snd p) = web \<longrightarrow> fst p = rid)
         \<and> (is_closed web (effects (step env s e)) \<longleftrightarrow> is_closed web (effects s))"
proof (cases e)
  case (WebRequest w rq)
  from und WebRequest have ne: "w \<noteq> web" "KStr (wr_id rq) \<noteq> rid"
    by (simp_all add: undisturbed_def)
  from web_request_cases [of env rq w s] obtain new where
      eff: "effects (handle_web_request env rq w s) = effects s @ new"
      and cl: "\<forall>x \<in> set new. snd x = Close \<longrightarrow> fst x = w"
      and pd: "pending_requests (handle_web_request env rq w s) = pending_requests s
            \<or> pending_requests (handle_web_request env rq w s)
               = AList.update (KStr (wr_id rq)) (w, wr_stored_at rq) (pending_requests s)"
    by blast
  from cl ne have "(web, Close) \<notin> set new" by auto
  with eff have c: "is_closed web (effects (handle_web_request env rq w s))
                    \<longleftrightarrow> is_closed web (effects s)"
    by (simp add: is_closed_append)
  from pd have a: "map_of (pending_requests (handle_web_request env rq w s)) rid = Some (web, t)"
    using rec ne by (auto simp: AList.update_conv')
  from pd have b: "\<forall>p \<in> set (pending_requests (handle_web_request env rq w s)).
                     fst (snd p) = web \<longrightarrow> fst p = rid"
    using uniq ne set_update_subset [of "KStr (wr_id rq)" "(w, wr_stored_at rq)" "pending_requests s"]
    by auto
  from a b c WebRequest show ?thesis by simp
next
  case (TunnelFrame w f)
  from und TunnelFrame have ne: "w \<noteq> web"
    and na: "\<not> answers env (secret_key s) rid (TunnelFrame w f)"
    by (simp_all add: undisturbed_def)
  obtain k s1 where h: "handle_frame env w f s = (k, s1)" by (cases "handle_frame env w f s")
  have p: "pending_requests (step env s e) = pending_requests s1"
    using TunnelFrame h by (cases k) (simp_all add: handle_client_finally_def emit_def)
  have e: "is_closed web (effects (step env s e)) \<longleftrightarrow> is_closed web (effects s1)"
    using TunnelFrame h ne
    by (cases k) (simp_all add: handle_client_finally_def emit_def is_closed_append)
  from handle_frame_cases [OF h] consider
      "pending_requests s1 = pending_requests s" "effects s1 = effects s"
    | rid' web_writer t0 d where "answers env (secret_key s) rid' (TunnelFrame w f)"
        "map_of (pending_requests s) rid' = Some (web_writer, t0)"
        "pending_requests s1 = AList.delete rid' (pending_requests s)"
        "effects s1 = effects s @ deliver web_writer d (fr_drain f)"
    by blast
  then show ?thesis
  proof cases
    case 1
    with rec uniq p e show ?thesis by simp
  next
    case 2
    from 2(1) na have neq: "rid' \<noteq> rid" by auto
    from 2(2) have "(rid', web_writer, t0) \<in> set (pending_requests s)"
      by (rule map_of_SomeD)
    with uniq neq have ww: "web_writer \<noteq> web" by auto
    then have "(web, Close) \<notin> set (deliver web_writer d (fr_drain f))"
      using deliver_on_writer [of "(web, Close)" web_writer d "fr_drain f"] by auto
    with 2(4) e have c: "is_closed web (effects (step env s e)) \<longleftrightarrow> is_closed web (effects s)"
      by (simp add: is_closed_append)
    from neq rec 2(3) p have a: "map_of (pending_requests (step env s e)) rid = Some (web, t)"
      by (simp add: map_of_delete_other)
    from uniq 2(3) p set_delete_subset [of rid' "pending_requests s"]
    have b: "\<forall>p \<in> set (pending_requests (step env s e)). fst (snd p) = web \<longrightarrow> fst p = rid"
      by auto
    from a b c show ?thesis by simp
  qed
next
  case (TunnelEnd w)
  with und have "w \<noteq> web" by (simp add: undisturbed_def)
  with TunnelEnd rec uniq show ?thesis
    by (simp add: handle_client_finally_def emit_def is_closed_append)
next
  case (Sweep t)
  with rec uniq show ?thesis by (simp add: cleanup_inactive_clients_def)
qed

lemma run_undisturbed:
  assumes "map_of (pending_requests s) rid = Some (web, t)"
    and "\<forall>p \<in> set (pending_requests s). fst (snd p) = web \<longrightarrow> fst p = rid"
    and "list_all (undisturbed env (secret_key s) rid web) evs"
  shows "map_of (pending_requests (run env s evs)) rid = Some (web, t)
         \<and> (is_closed web (effects (run env s evs)) \<longleftrightarrow> is_closed web (effects s))"
  using assms
proof (induction evs arbitrary: s)
  case Nil
  then show ?case by (simp add: run_def)
next
  case (Cons e evs)
  from Cons.prems have und: "undisturbed env (secret_key s) rid web e"
    and rest: "list_all (undisturbed env (secret_key (step env s e)) rid web) evs"
    by (simp_all add: step_secret_key)
  from step_undisturbed [OF Cons.prems(1,2) und]
  have a: "map_of (pending_requests (step env s e)) rid = Some (web, t)"
    and b: "\<forall>p \<in> set (pending_requests (step env s e)). fst (snd p) = web \<longrightarrow> fst p = rid"
    and c: "is_closed web (effects (step env s e)) \<longleftrightarrow> is_closed web (effects s)"
    by blast+
  from Cons.IH [OF a b rest] c show ?case by (simp add: run_def)
qed

lemma demo_digest_ok: "digest_ok demo_env"
proof -
  have "n mod 10 < 80" for n :: nat
    using mod_less_divisor [of 10 n] by linarith
  then show ?thesis
    by (simp add: digest_ok_def demo_env_def ascii_def)
qed

lemma read_get_request:
  "read_request (wr_stream get_request) = Some (bytes_of ''GET /health HTTP/1.1'' @ crlf2, [])"
  by (simp add: web_defs eval_defs)

lemma read_chunked_request:
  "read_request (wr_stream chunked_request)
   = Some (bytes_of ''POST /upload HTTP/1.1'' @ [13, 10]
           @ bytes_of ''Transfer-Encoding: chunked'' @ crlf2, [])"
  by (simp add: web_defs eval_defs)

subsection \<open>Lemmas about the client\<close>

lemma py_split_nonempty: "py_split s sep \<noteq> []"
  by (subst py_split.simps) (simp split: option.split)

lemma build_call_malformed:
  assumes "malformed_request raw"
  shows "build_call c raw
         = Inl (if py_find raw (CRLF @ CRLF) = None then msg_no_header_end
                else msg_bad_request_line)"
proof (cases "py_find raw (CRLF @ CRLF)")
  case None
  then show ?thesis by (simp add: build_call_def)
next
  case (Some i)
  obtain start_line rest where sp: "py_split (take i raw) CRLF = start_line # rest"
    using py_split_nonempty [of "take i raw" CRLF] by (cases "py_split (take i raw) CRLF") auto
  with assms Some have "length (py_split start_line (ascii '' '')) < 3"
    by (simp add: malformed_request_def)
  with Some sp show ?thesis by (simp add: build_call_def Let_def)
qed

lemma handle_request_shape:
  "\<exists>ds ms. handle_request env c local drain rd = map Dispatched ds @ map Emitted ms
           \<and> length ds \<le> 1"
proof -
  have e: "\<exists>ms. send_response_to_server env c drain r = map Emitted ms" for r
    by (auto simp: send_response_to_server_def split: option.splits)
  show ?thesis
  proof (cases rd)
    case (JObj d)
    show ?thesis
    proof (cases "map_of d (ascii ''id'')")
      case None
      with JObj have "handle_request env c local drain rd = map Dispatched [] @ map Emitted []"
        by (simp add: handle_request_def)
      then show ?thesis by (metis list.size(3) zero_le)
    next
      case (Some rid)
      obtain call r where
        f: "forward_request_to_local_api c local rid (map_of d (ascii ''data'')) = (call, r)"
        by (cases "forward_request_to_local_api c local rid (map_of d (ascii ''data''))")
      from e obtain ms where ms: "send_response_to_server env c drain r = map Emitted ms"
        by blast
      show ?thesis
      proof (cases call)
        case None
        with JObj Some f ms
        have "handle_request env c local drain rd = map Dispatched [] @ map Emitted ms"
          by (simp add: handle_request_def)
        then show ?thesis by (metis list.size(3) zero_le)
      next
        case (Some hc)
        with JObj \<open>map_of d (ascii ''id'') = Some rid\<close> f ms
        have "handle_request env c local drain rd = map Dispatched [hc] @ map Emitted ms"
          by (simp add: handle_request_def)
        moreover have "length [hc] \<le> 1" by simp
        ultimately show ?thesis by blast
      qed
    qed
  qed (simp_all add: handle_request_def)
qed

lemma receive_frame_shape:
  "\<exists>ds ms. snd (receive_frame env c f) = map Dispatched ds @ map Emitted ms \<and> length ds \<le> 1"
proof -
  have nil: "\<exists>ds ms. [] = map Dispatched ds @ map Emitted ms \<and> length ds \<le> 1"
    by simp
  show ?thesis
    using nil handle_request_shape
    by (simp add: receive_frame_def split: option.split bool.split)
qed

lemma receive_from_lower: "x \<in> set (receive_from env c n fs) \<Longrightarrow> n \<le> fst x"
proof (induction fs arbitrary: n)
  case Nil
  then show ?case by simp
next
  case (Cons f fs)
  obtain k evs where r: "receive_frame env c f = (k, evs)" by (cases "receive_frame env c f")
  show ?case
  proof (cases k)
    case Continue
    with r Cons.prems have "x \<in> set (map (Pair n) evs) \<or> x \<in> set (receive_from env c (Suc n) fs)"
      by simp
    then show ?thesis
    proof
      assume "x \<in> set (map (Pair n) evs)"
      then show ?thesis by auto
    next
      assume "x \<in> set (receive_from env c (Suc n) fs)"
      from Cons.IH [OF this] show ?thesis by simp
    qed
  next
    case Raised
    with r Cons.prems show ?thesis by auto
  qed
qed

lemma receive_from_sorted: "sorted (map fst (receive_from env c n fs))"
proof (induction fs arbitrary: n)
  case Nil
  then show ?case by simp
next
  case (Cons f fs)
  obtain k evs where r: "receive_frame env c f = (k, evs)" by (cases "receive_frame env c f")
  have blk: "map fst (map (Pair n) evs) = replicate (length evs) n"
    by (induction evs) auto
  show ?case
  proof (cases k)
    case Continue
    have "\<forall>y \<in> set (map fst (receive_from env c (Suc n) fs)). n \<le> y"
      using receive_from_lower [of _ env c "Suc n" fs] by fastforce
    with r Continue Cons.IH [of "Suc n"] blk show ?thesis
      by (auto simp: sorted_append)
  next
    case Raised
    with r blk show ?thesis by simp
  qed
qed

lemma receive_from_block:
  "\<exists>ds ms. map snd (filter (\<lambda>x. fst x = i) (receive_from env c n fs))
           = map Dispatched ds @ map Emitted ms \<and> length ds \<le> 1"
proof (induction fs arbitrary: n)
  case Nil
  then show ?case by simp
next
  case (Cons f fs)
  obtain k evs where r: "receive_frame env c f = (k, evs)" by (cases "receive_frame env c f")
  from receive_frame_shape [of env c f] r
  obtain ds ms where sh: "evs = map Dispatched ds @ map Emitted ms" "length ds \<le> 1"
    by auto
  have nil: "\<exists>ds ms. ([]::client_event list) = map Dispatched ds @ map Emitted ms \<and> length ds \<le> 1"
    by simp
  show ?case
  proof (cases "i = n")
    case True
    have "filter (\<lambda>x. fst x = n) (receive_from env c (Suc n) fs) = []"
      using receive_from_lower [of _ env c "Suc n" fs] by (fastforce simp: filter_empty_conv)
    with True r have "map snd (filter (\<lambda>x. fst x = i) (receive_from env c n (f # fs))) = evs"
      by (cases k) (simp_all add: comp_def)
    with sh show ?thesis by blast
  next
    case False
    then have e: "filter (\<lambda>x. fst x = i) (map (Pair n) evs) = []"
      by (auto simp: filter_empty_conv)
    show ?thesis
    proof (cases k)
      case Continue
      with r e have "map snd (filter (\<lambda>x. fst x = i) (receive_from env c n (f # fs)))
                     = map snd (filter (\<lambda>x. fst x = i) (receive_from env c (Suc n) fs))"
        by simp
      with Cons.IH [of "Suc n"] show ?thesis by simp
    next
      case Raised
      with r e nil show ?thesis by simp
    qed
  qed
qed

section \<open>The claims\<close>

subsection \<open>C3: a frame whose signature fails verification\<close>

text \<open>
  C3 as stated: a frame received on the tunnel port whose signature fails verification
  is dropped with no payload field interpreted and no registry entry created, and the
  offending client connection is closed. The last part fails for a signature that is
  ASCII text and differs from the digest: the loop prints and goes on with
  \<^verbatim>\<open>continue\<close>. On the connection 3, a forged frame leaves server and connection
  as they were, and a registration frame that follows it on the same connection is
  accepted.
\<close>

theorem bad_signature_connection_stays_open:
  "handle_frame demo_env 3 forged_frame empty_server = (Continue, empty_server)
   \<and> clients (frame_loop demo_env 3 [forged_frame, register_frame] empty_server)
       = [(KStr (ascii ''c1''), 3, 20)]
   \<and> \<not> is_closed 3 (effects (frame_loop demo_env 3 [forged_frame, register_frame] empty_server))"
  by (simp add: demo_defs eval_defs)

text \<open>
  C3 as amended: a frame whose signature fails verification is dropped, whatever the
  JSON parser would make of its payload: the pending table is unchanged, no client
  record is created and nothing is written. When the signature is ASCII text that
  differs from the expected digest, the state of the server is unchanged and the loop
  goes on with the next frame of the connection, which stays open. When the signature
  is not UTF-8 or not ASCII, decoding or comparing it raises: the connection is closed
  and its client records are removed.
\<close>

theorem bad_signature_frame_dropped:
  assumes "signature_check env (secret_key s) f \<noteq> Some True"
  shows "step (env\<lparr>json_loads := l\<rparr>) s (TunnelFrame w f)
           = (if signature_check env (secret_key s) f = Some False then s
              else handle_client_finally w s)
         \<and> handle_frame (env\<lparr>json_loads := l\<rparr>) w f s
           = (if signature_check env (secret_key s) f = Some False then Continue else Raised, s)
         \<and> pending_requests (step (env\<lparr>json_loads := l\<rparr>) s (TunnelFrame w f))
           = pending_requests s
         \<and> set (clients (step (env\<lparr>json_loads := l\<rparr>) s (TunnelFrame w f))) \<subseteq> set (clients s)
         \<and> effects (step (env\<lparr>json_loads := l\<rparr>) s (TunnelFrame w f))
           = (if signature_check env (secret_key s) f = Some False then effects s
              else effects s @ [(w, Close)])
         \<and> clients (step (env\<lparr>json_loads := l\<rparr>) s (TunnelFrame w f))
           = (if signature_check env (secret_key s) f = Some False then clients s
              else filter (\<lambda>(client_id, client_writer, last_seen). client_writer \<noteq> w) (clients s))"
proof (cases "signature_check env (secret_key s) f")
  case None
  then have h: "handle_frame (env\<lparr>json_loads := l\<rparr>) w f s = (Raised, s)"
    by (auto simp: signature_check_def handle_frame_def split: option.splits)
  with None show ?thesis
    by (auto simp: handle_client_finally_def emit_def)
next
  case (Some b)
  with assms have b: "signature_check env (secret_key s) f = Some False" by (cases b) auto
  then have h: "handle_frame (env\<lparr>json_loads := l\<rparr>) w f s = (Continue, s)"
    by (auto simp: signature_check_def handle_frame_def split: option.splits)
  with b show ?thesis by simp
qed

theorem bad_signature_frame_dropped_witness:
  "signature_check demo_env (secret_key one_client) forged_frame = Some False
   \<and> step demo_env one_client (TunnelFrame 1 forged_frame) = one_client
   \<and> signature_check demo_env (secret_key one_client) garbled_frame = None
   \<and> step demo_env one_client (TunnelFrame 1 garbled_frame)
     = empty_server\<lparr>effects := [(1, Close)]\<rparr>"
proof -
  have e: "demo_env\<lparr>json_loads := json_loads demo_env\<rparr> = demo_env" by simp
  have h1: "signature_check demo_env (secret_key one_client) forged_frame = Some False"
    by (simp add: signature_check_def demo_defs eval_defs)
  have h2: "signature_check demo_env (secret_key one_client) garbled_frame = None"
    by (simp add: signature_check_def garbled_frame_def demo_defs eval_defs)
  from h1 have n1: "signature_check demo_env (secret_key one_client) forged_frame \<noteq> Some True"
    by simp
  from h2 have n2: "signature_check demo_env (secret_key one_client) garbled_frame \<noteq> Some True"
    by simp
  from bad_signature_frame_dropped [OF n1, of "json_loads demo_env" 1] h1 e
  have a: "step demo_env one_client (TunnelFrame 1 forged_frame) = one_client"
    by simp
  from bad_signature_frame_dropped [OF n2, of "json_loads demo_env" 1] h2 e
  have "step demo_env one_client (TunnelFrame 1 garbled_frame) = handle_client_finally 1 one_client"
    by simp
  also have "\<dots> = empty_server\<lparr>effects := [(1, Close)]\<rparr>"
    by (simp add: handle_client_finally_def emit_def one_client_def empty_server_def)
  finally have b: "step demo_env one_client (TunnelFrame 1 garbled_frame)
                   = empty_server\<lparr>effects := [(1, Close)]\<rparr>" .
  from h1 a h2 b show ?thesis by blast
qed

subsection \<open>C4: response frames and registration\<close>

text \<open>
  C4 as stated: a response frame arriving on a tunnel connection from which no
  registration frame has been accepted is dropped, its data never written to a pending
  frontend writer. The server does not look at the registry when it handles a
  response: with an empty registry, a response frame on the connection 3 for the pending
  request \<^verbatim>\<open>r1\<close> is written to the public connection 7, which is then closed.
\<close>

theorem unregistered_response_is_delivered:
  "clients (empty_server\<lparr>pending_requests := [(KStr (ascii ''r1''), 7, 11)]\<rparr>) = []
   \<and> handle_frame demo_env 3 response_frame
        (empty_server\<lparr>pending_requests := [(KStr (ascii ''r1''), 7, 11)]\<rparr>)
      = (Continue,
         empty_server\<lparr>effects := [(7, Write (bytes_of ''HTTP/1.1 200 OK'' @ crlf2 @ bytes_of ''hi'')),
                                  (7, Close)]\<rparr>)"
  by (simp add: demo_defs eval_defs crlf2_def)

text \<open>
  C4 as amended: what a frame does to the pending table and to the writers, and whether
  the loop goes on, does not depend on the client registry: a validly signed response
  frame is acted upon whether or not its connection has registered.
\<close>

theorem response_handling_ignores_registry:
  "fst (handle_frame env w f (s\<lparr>clients := cs\<rparr>)) = fst (handle_frame env w f s)
   \<and> pending_requests (snd (handle_frame env w f (s\<lparr>clients := cs\<rparr>)))
       = pending_requests (snd (handle_frame env w f s))
   \<and> effects (snd (handle_frame env w f (s\<lparr>clients := cs\<rparr>)))
       = effects (snd (handle_frame env w f s))"
  by (simp add: handle_frame_def handle_payload_def emit_def Let_def
           split: option.split bool.split json.split prod.split)

theorem response_handling_ignores_registry_witness:
  "effects (snd (handle_frame demo_env 3 response_frame
                   (one_client\<lparr>pending_requests := [(KStr (ascii ''r1''), 7, 11)]\<rparr>)))
   = [(7, Write (bytes_of ''HTTP/1.1 200 OK'' @ crlf2 @ bytes_of ''hi'')), (7, Close)]"
proof -
  have "effects (snd (handle_frame demo_env 3 response_frame
                   (empty_server\<lparr>pending_requests := [(KStr (ascii ''r1''), 7, 11)]\<rparr>)))
        = [(7, Write (bytes_of ''HTTP/1.1 200 OK'' @ crlf2 @ bytes_of ''hi'')), (7, Close)]"
    by (simp add: demo_defs eval_defs crlf2_def)
  moreover have "one_client\<lparr>pending_requests := [(KStr (ascii ''r1''), 7, 11)]\<rparr>
      = (empty_server\<lparr>pending_requests := [(KStr (ascii ''r1''), 7, 11)]\<rparr>)
          \<lparr>clients := [(KStr (ascii ''c1''), 1, 0)]\<rparr>"
    by (simp add: one_client_def)
  ultimately show ?thesis
    using response_handling_ignores_registry
      [where env = demo_env and w = 3 and f = response_frame
         and s = "empty_server\<lparr>pending_requests := [(KStr (ascii ''r1''), 7, 11)]\<rparr>"
         and cs = "[(KStr (ascii ''c1''), 1, 0)]"]
    by simp
qed

subsection \<open>C7: the end of a tunnel connection\<close>

text \<open>
  C7 as stated: when a tunnel connection ends, the server removes every client record
  whose writer is that connection, and every pending-request record whose request was
  forwarded over that connection is removed. The second part fails: a request forwarded
  over the connection 1 is still pending after that connection has ended.
\<close>

theorem tunnel_end_keeps_pending:
  "run demo_env one_client [WebRequest 7 get_request, TunnelEnd 1]
   = empty_server\<lparr>pending_requests := [(KStr (ascii ''r1''), 7, 11)],
                   effects := [(1, Write ([0, 0, 0, 3] @ bytes_of ''5f1''
                                          @ demo_dumps request_payload_1)),
                               (1, Close)]\<rparr>"
  by (simp add: demo_defs eval_defs web_defs)

text \<open>
  C7 as amended: when a tunnel connection ends, with end of file after its frames or
  with an exception, the server removes every client record whose writer is that
  connection and no other, and closes the connection; the pending-request table is
  left as it was.
\<close>

theorem tunnel_end_removes_clients_only:
  "(\<forall>c \<in> set (clients (handle_client env w frames s)). fst (snd c) \<noteq> w)
   \<and> (\<forall>c \<in> set (clients (frame_loop env w frames s)).
         fst (snd c) \<noteq> w \<longrightarrow> c \<in> set (clients (handle_client env w frames s)))
   \<and> is_closed w (effects (handle_client env w frames s))
   \<and> pending_requests (handle_client env w frames s)
       = pending_requests (frame_loop env w frames s)
   \<and> pending_requests (step env s (TunnelEnd w)) = pending_requests s"
  by (simp add: handle_client_def finally_clients)
     (simp add: handle_client_finally_def emit_def is_closed_def)

theorem tunnel_end_removes_clients_only_witness:
  "clients (frame_loop demo_env 3 [register_frame] empty_server) = [(KStr (ascii ''c1''), 3, 20)]
   \<and> (KStr (ascii ''c1''), 3, 20)
         \<notin> set (clients (handle_client demo_env 3 [register_frame] empty_server))
   \<and> is_closed 3 (effects (handle_client demo_env 3 [register_frame] empty_server))"
proof -
  have a: "clients (frame_loop demo_env 3 [register_frame] empty_server)
           = [(KStr (ascii ''c1''), 3, 20)]"
    by (simp add: demo_defs eval_defs)
  from tunnel_end_removes_clients_only [of demo_env 3 "[register_frame]" empty_server]
  have c: "\<forall>c \<in> set (clients (handle_client demo_env 3 [register_frame] empty_server)).
             fst (snd c) \<noteq> 3"
    and d: "is_closed 3 (effects (handle_client demo_env 3 [register_frame] empty_server))"
    by blast+
  from c have "(KStr (ascii ''c1''), 3, 20)
                 \<notin> set (clients (handle_client demo_env 3 [register_frame] empty_server))"
    by fastforce
  with a d show ?thesis by blast
qed

subsection \<open>C5: requests with chunked transfer encoding\<close>

text \<open>
  C5 as stated: for every public HTTP request whose headers contain
  \<^verbatim>\<open>Transfer-Encoding: chunked\<close>, the server responds 501 Not Implemented and does
  not forward the request over the tunnel. The server never looks at that header: with
  one client registered, a chunked request is forwarded to it (the header block only,
  for there is no Content-Length) and recorded as pending, and nothing is written to the
  public connection 7.
\<close>

theorem chunked_request_is_forwarded:
  "handle_web_request demo_env chunked_request 7 one_client
   = one_client
       \<lparr>pending_requests := [(KStr (ascii ''r2''), 7, 11)],
        effects := [(1, Write ([0, 0, 0, 3] @ bytes_of ''5f0''
                               @ bytes_of ''id=r2;timestamp=;data=POST /upload HTTP/1.1'' @ [13, 10]
                               @ bytes_of ''Transfer-Encoding: chunked'' @ crlf2
                               @ bytes_of '';client_addr=;''))]\<rparr>
   \<and> written_to 7 (effects (handle_web_request demo_env chunked_request 7 one_client)) = []"
  by (simp add: demo_defs eval_defs web_defs)

text \<open>
  C5 as amended: every public HTTP request that the server reads to its end, whatever
  its Transfer-Encoding header says, is forwarded to the first registered client when
  there is one and the write to the tunnel succeeds: the frame is written to that
  client's connection, the request is recorded as pending under its id with the
  writer of the public connection, and nothing else is written.
\<close>

theorem any_request_is_forwarded:
  assumes "digest_ok env"
    and "clients s = (client_id, client_writer, last_seen) # cs"
    and "read_request (wr_stream rq) = Some (headers_data, body_data)"
    and "wr_drain_ok rq"
  shows "\<exists>message.
           frame_message env (secret_key s)
             (request_json \<lparr>rd_id = wr_id rq, rd_timestamp = wr_time rq,
                            rd_data = decode_surrogateescape (headers_data @ body_data),
                            rd_client_addr = wr_peername rq\<rparr>) = Some message
         \<and> effects (handle_web_request env rq writer s)
             = effects s @ [(client_writer, Write message)]
         \<and> pending_requests (handle_web_request env rq writer s)
             = AList.update (KStr (wr_id rq)) (writer, wr_stored_at rq) (pending_requests s)
         \<and> map_of (pending_requests (handle_web_request env rq writer s)) (KStr (wr_id rq))
             = Some (writer, wr_stored_at rq)"
proof -
  obtain message where m:
    "frame_message env (secret_key s)
       (request_json \<lparr>rd_id = wr_id rq, rd_timestamp = wr_time rq,
                      rd_data = decode_surrogateescape (headers_data @ body_data),
                      rd_client_addr = wr_peername rq\<rparr>) = Some message"
    using frame_message_ok [OF assms(1)] by blast
  then have "handle_web_request env rq writer s
             = (emit [(client_writer, Write message)] s)
                 \<lparr>pending_requests :=
                    AList.update (KStr (wr_id rq)) (writer, wr_stored_at rq) (pending_requests s)\<rparr>"
    using assms(2,3,4) by (simp add: handle_web_request_def forward_to_client_def Let_def)
  then show ?thesis
    using m by (simp add: emit_def AList.update_conv)
qed

theorem any_request_is_forwarded_witness:
  "digest_ok demo_env
   \<and> clients one_client = [(KStr (ascii ''c1''), 1, 0)]
   \<and> read_request (wr_stream chunked_request)
       = Some (bytes_of ''POST /upload HTTP/1.1'' @ [13, 10]
               @ bytes_of ''Transfer-Encoding: chunked'' @ crlf2, [])
   \<and> wr_drain_ok chunked_request
   \<and> map_of (pending_requests (handle_web_request demo_env chunked_request 7 one_client))
        (KStr (ascii ''r2'')) = Some (7, 11)"
proof -
  have c: "clients one_client = [(KStr (ascii ''c1''), 1, 0)]"
    by (simp add: one_client_def empty_server_def)
  have d: "wr_drain_ok chunked_request" by (simp add: chunked_request_def)
  from any_request_is_forwarded [OF demo_digest_ok c read_chunked_request d, of 7]
  have "map_of (pending_requests (handle_web_request demo_env chunked_request 7 one_client))
          (KStr (wr_id chunked_request)) = Some (7, wr_stored_at chunked_request)"
    by blast
  then have "map_of (pending_requests (handle_web_request demo_env chunked_request 7 one_client))
          (KStr (ascii ''r2'')) = Some (7, 11)"
    by (simp add: chunked_request_def)
  with demo_digest_ok c read_chunked_request d show ?thesis by blast
qed

subsection \<open>C8: correlation of response frames\<close>




subsection \<open>C9: a public request while no client is registered\<close>

text \<open>
  C9: for every public HTTP request that arrives (and is read to its end) while the
  client registry is empty, the server responds 503 Service Unavailable (the status
  line \<^verbatim>\<open>HTTP/1.1 503 Service Unavailable\<close>, a blank line and the body
  \<^verbatim>\<open>No client connected\<close>), closes the connection and creates no pending-request
  record.
\<close>

theorem empty_registry_503:
  assumes "digest_ok env"
    and "clients s = []"
    and "read_request (wr_stream rq) = Some (headers_data, body_data)"
  shows "effects (handle_web_request env rq writer s)
           = effects s
             @ [(writer, Write (bytes_of ''HTTP/1.1 503 Service Unavailable'' @ [13, 10, 13, 10]
                                @ bytes_of ''No client connected'')),
                (writer, Close)]
         \<and> written_to writer (effects (handle_web_request env rq writer s))
           = written_to writer (effects s)
             @ bytes_of ''HTTP/1.1 503 Service Unavailable'' @ [13, 10, 13, 10]
             @ bytes_of ''No client connected''
         \<and> is_closed writer (effects (handle_web_request env rq writer s))
         \<and> pending_requests (handle_web_request env rq writer s) = pending_requests s
         \<and> clients (handle_web_request env rq writer s) = []"
proof -
  obtain message where
    "frame_message env (secret_key s)
       (request_json \<lparr>rd_id = wr_id rq, rd_timestamp = wr_time rq,
                      rd_data = decode_surrogateescape (headers_data @ body_data),
                      rd_client_addr = wr_peername rq\<rparr>) = Some message"
    using frame_message_ok [OF assms(1)] by blast
  then have "handle_web_request env rq writer s
             = emit [(writer, Write resp_503), (writer, Close)] s"
    using assms(2,3) by (simp add: handle_web_request_def forward_to_client_def Let_def)
  then show ?thesis
    using assms(2) by (simp add: emit_def written_to_append is_closed_def resp_503_def crlf2_def)
qed

theorem empty_registry_503_witness:
  "digest_ok demo_env
   \<and> clients empty_server = []
   \<and> read_request (wr_stream get_request) = Some (bytes_of ''GET /health HTTP/1.1'' @ crlf2, [])
   \<and> effects (handle_web_request demo_env get_request 7 empty_server)
       = [(7, Write (bytes_of ''HTTP/1.1 503 Service Unavailable'' @ [13, 10, 13, 10]
                     @ bytes_of ''No client connected'')),
          (7, Close)]
   \<and> pending_requests (handle_web_request demo_env get_request 7 empty_server)
       = pending_requests empty_server"
proof -
  have c: "clients empty_server = []" by (simp add: empty_server_def)
  have e: "effects empty_server = []" by (simp add: empty_server_def)
  from empty_registry_503 [OF demo_digest_ok c read_get_request, of 7]
  have "effects (handle_web_request demo_env get_request 7 empty_server)
        = effects empty_server
          @ [(7, Write (bytes_of ''HTTP/1.1 503 Service Unavailable'' @ [13, 10, 13, 10]
                        @ bytes_of ''No client connected'')),
             (7, Close)]"
    and p: "pending_requests (handle_web_request demo_env get_request 7 empty_server)
            = pending_requests empty_server"
    by blast+
  with e have "effects (handle_web_request demo_env get_request 7 empty_server)
        = [(7, Write (bytes_of ''HTTP/1.1 503 Service Unavailable'' @ [13, 10, 13, 10]
                      @ bytes_of ''No client connected'')),
           (7, Close)]"
    by simp
  with demo_digest_ok c read_get_request p show ?thesis by blast
qed

subsection \<open>C10: what removes a pending-request record\<close>

text \<open>
  C10: the only event that removes a pending-request record is the arrival of a validly
  signed frame whose request id matches it: a public request, a frame that does not
  match, the end of a tunnel connection and the periodic sweep leave it in the table.
  So for a forwarded request whose response frame never arrives, the record stays in
  the table with its frontend writer and the state of the frontend connection (open or
  closed) stays what it was, however long the server runs.
\<close>

theorem pending_removed_only_by_matching_frame:
  "(map_of (pending_requests s) rid = Some r
      \<and> map_of (pending_requests (step env s e)) rid = None
    \<longrightarrow> answers env (secret_key s) rid e)
   \<and> (map_of (pending_requests s) rid = Some (web, t)
      \<and> (\<forall>p \<in> set (pending_requests s). fst (snd p) = web \<longrightarrow> fst p = rid)
      \<and> list_all (undisturbed env (secret_key s) rid web) evs
    \<longrightarrow> map_of (pending_requests (run env s evs)) rid = Some (web, t)
        \<and> (is_closed web (effects (run env s evs)) \<longleftrightarrow> is_closed web (effects s)))"
  using step_removes_only_answered [of s rid r env e] run_undisturbed [of s rid web t env evs]
  by blast

theorem pending_removed_only_by_matching_frame_witness:
  "map_of (pending_requests (one_client\<lparr>pending_requests := [(KStr (ascii ''r1''), 7, 11)]\<rparr>))
     (KStr (ascii ''r1'')) = Some (7, 11)
   \<and> list_all (undisturbed demo_env demo_key (KStr (ascii ''r1'')) 7)
        [WebRequest 8 chunked_request, TunnelFrame 3 forged_frame, TunnelEnd 1, Sweep 1000]
   \<and> map_of (pending_requests
               (run demo_env (one_client\<lparr>pending_requests := [(KStr (ascii ''r1''), 7, 11)]\<rparr>)
                  [WebRequest 8 chunked_request, TunnelFrame 3 forged_frame, TunnelEnd 1,
                   Sweep 1000]))
        (KStr (ascii ''r1'')) = Some (7, 11)
   \<and> \<not> is_closed 7 (effects
               (run demo_env (one_client\<lparr>pending_requests := [(KStr (ascii ''r1''), 7, 11)]\<rparr>)
                  [WebRequest 8 chunked_request, TunnelFrame 3 forged_frame, TunnelEnd 1,
                   Sweep 1000]))"
proof -
  let ?s = "one_client\<lparr>pending_requests := [(KStr (ascii ''r1''), 7, 11)]\<rparr>"
  let ?evs = "[WebRequest 8 chunked_request, TunnelFrame 3 forged_frame, TunnelEnd 1, Sweep 1000]"
  have a: "map_of (pending_requests ?s) (KStr (ascii ''r1'')) = Some (7, 11)"
    by (simp add: demo_defs)
  have b: "\<forall>p \<in> set (pending_requests ?s). fst (snd p) = 7 \<longrightarrow> fst p = KStr (ascii ''r1'')"
    by (simp add: demo_defs)
  have k: "secret_key ?s = demo_key" by (simp add: demo_defs)
  have u: "list_all (undisturbed demo_env demo_key (KStr (ascii ''r1'')) 7) ?evs"
    by (simp add: undisturbed_def answers_def chunked_request_def demo_defs eval_defs)
  have o: "\<not> is_closed 7 (effects ?s)" by (simp add: demo_defs is_closed_def)
  from u k have u': "list_all (undisturbed demo_env (secret_key ?s) (KStr (ascii ''r1'')) 7) ?evs"
    by simp
  from pending_removed_only_by_matching_frame
         [of ?s "KStr (ascii ''r1'')" "(7, 11)" demo_env "Sweep 0" 7 11 ?evs] a b u'
  have "map_of (pending_requests (run demo_env ?s ?evs)) (KStr (ascii ''r1'')) = Some (7, 11)"
    and "is_closed 7 (effects (run demo_env ?s ?evs)) \<longleftrightarrow> is_closed 7 (effects ?s)"
    by blast+
  with a u o show ?thesis by blast
qed

subsection \<open>C1: the body of a response\<close>

text \<open>
  C1: for any response body R of the local service, the bytes the Frontend Server
  writes to the public connection are an HTTP/1.1 response whose body is R byte for
  byte, and the client never sends a binary body through a lossy decode. The client
  does: \<^verbatim>\<open>response_body.decode('utf-8', errors='ignore')\<close> leaves out every byte
  that is not UTF-8, while the server encodes \<^verbatim>\<open>data\<close> with
  \<^verbatim>\<open>surrogateescape\<close>, the handler that would restore such bytes. For the body of
  the one byte 0xFF, the text the client returns ends with the blank line, and so do
  the bytes the server writes to the public connection 7 when it is given the
  dictionary the client has sent (\<^verbatim>\<open>json.dumps\<close> and \<^verbatim>\<open>json.loads\<close> carry it
  unchanged): the body is lost.
\<close>

theorem binary_response_body_is_lost:
  "snd (forward_request_to_local_api demo_client (\<lambda>call. Inr binary_response)
          (JStr (ascii ''r1'')) (Some (JStr (ascii ''GET /health HTTP/1.1'' @ CRLF @ CRLF))))
   = \<lparr>request_id = JStr (ascii ''r1''),
      data = ascii ''HTTP/1.1 200 OK'' @ CRLF
             @ ascii ''Content-Type: application/octet-stream'' @ CRLF @ CRLF\<rparr>
   \<and> written_to 7 (effects (snd (handle_payload 3
         (response_json \<lparr>request_id = JStr (ascii ''r1''),
                          data = ascii ''HTTP/1.1 200 OK'' @ CRLF
                                 @ ascii ''Content-Type: application/octet-stream'' @ CRLF @ CRLF\<rparr>)
         30 (\<lambda>k. True) (empty_server\<lparr>pending_requests := [(KStr (ascii ''r1''), 7, 11)]\<rparr>))))
     = bytes_of ''HTTP/1.1 200 OK'' @ [13, 10]
       @ bytes_of ''Content-Type: application/octet-stream'' @ crlf2
   \<and> hr_body binary_response = [0xFF]"
  by (simp add: demo_defs eval_defs web_defs client_defs)

subsection \<open>C2: the order in which the client serves request frames\<close>

text \<open>
  C2 as stated: at the Tunnel Client the second of two request frames may be dispatched
  to the local service before the response frame of the first has been emitted, and
  the response frames need not follow the order of the request frames. The receive
  loop awaits \<^verbatim>\<open>handle_request\<close> before it reads the next frame: for two request
  frames, the events of the client are the dispatch and the response frame of the
  first, then the dispatch and the response frame of the second, in this order only.
\<close>

theorem client_serves_one_frame_at_a_time:
  "receive_messages demo_env demo_client
     [client_frame_of request_payload_1 text_response,
      client_frame_of request_payload_2 text_response]
   = [(0, Dispatched \<lparr>hc_method = ascii ''GET'', hc_url = ascii ''http://localhost:5001/health'',
                       hc_headers = [], hc_data = None\<rparr>),
      (0, Emitted ([0, 0, 0, 3] @ bytes_of ''5f8''
                   @ bytes_of ''request_id=r1;data=HTTP/1.1 200 OK'' @ [13, 10]
                   @ bytes_of ''Content-Type: text/plain'' @ crlf2 @ bytes_of ''ok;'')),
      (1, Dispatched \<lparr>hc_method = ascii ''GET'', hc_url = ascii ''http://localhost:5001/x'',
                       hc_headers = [], hc_data = None\<rparr>),
      (1, Emitted ([0, 0, 0, 3] @ bytes_of ''5f8''
                   @ bytes_of ''request_id=r2;data=HTTP/1.1 200 OK'' @ [13, 10]
                   @ bytes_of ''Content-Type: text/plain'' @ crlf2 @ bytes_of ''ok;''))]"
  by (simp add: demo_defs eval_defs web_defs client_defs)

text \<open>
  C2 as amended: the Tunnel Client serves the request frames one at a time, in the
  order received: the events come in the order of the frames, and those of one frame
  are at most one dispatch to the local service followed by the chunks of its response
  frame. So the response frame of a request is emitted before the next request is
  dispatched, and the response frames follow the order of the request frames.
\<close>

theorem client_serves_frames_in_order:
  "sorted (map fst (receive_messages env c frames))
   \<and> (\<forall>i. \<exists>ds ms. map snd (filter (\<lambda>x. fst x = i) (receive_messages env c frames))
                     = map Dispatched ds @ map Emitted ms \<and> length ds \<le> 1)"
  using receive_from_sorted [of env c 0 frames] receive_from_block [of _ env c 0 frames]
  by (simp add: receive_messages_def)

theorem client_serves_frames_in_order_witness:
  "sorted (map fst (receive_messages demo_env demo_client
                      [client_frame_of request_payload_1 text_response,
                       client_frame_of request_payload_2 text_response]))"
  using client_serves_frames_in_order
          [of demo_env demo_client
              "[client_frame_of request_payload_1 text_response,
                client_frame_of request_payload_2 text_response]"]
  by blast

subsection \<open>C6: a request frame that is not an HTTP request\<close>

text \<open>
  C6 as stated: for a request frame whose data is malformed as an HTTP request, the
  client synthesises an HTTP/1.1 400 response and sends it back as the response frame
  for that request id. The parser raises ValueError, and the one handler of the
  function answers every exception with a 500 response: for the data
  \<^verbatim>\<open>GET /health\<close>, without a blank line, the response is
  \<^verbatim>\<open>HTTP/1.1 500 Internal Server Error\<close>.
\<close>

theorem malformed_request_gets_500:
  "forward_request_to_local_api demo_client (\<lambda>call. Inr text_response)
     (JStr (ascii ''r1'')) (Some (JStr (ascii ''GET /health'')))
   = (None,
      \<lparr>request_id = JStr (ascii ''r1''),
       data = ascii ''HTTP/1.1 500 Internal Server Error'' @ CRLF
              @ ascii ''Content-Type: text/plain'' @ CRLF @ CRLF
              @ ascii ''Error forwarding request to local API: '' @ msg_no_header_end\<rparr>)"
  by (simp add: demo_defs eval_defs web_defs client_defs)

text \<open>
  C6 as amended: for a request frame whose data is malformed as an HTTP request, the
  client issues no request to the local service and synthesises the response
  \<^verbatim>\<open>HTTP/1.1 500 Internal Server Error\<close> of content type \<^verbatim>\<open>text/plain\<close>, whose body
  is \<^verbatim>\<open>Error forwarding request to local API: \<close> followed by the text of the
  ValueError (one for the missing blank line, one for the start line); \<^verbatim>\<open>handle_request\<close>
  sends it back as the response frame for that request id, whole when the tunnel takes
  the writes.
\<close>

theorem malformed_request_answered_500:
  assumes "malformed_request raw"
  shows "forward_request_to_local_api c local rid (Some (JStr raw))
           = (None, error_response rid (if py_find raw (CRLF @ CRLF) = None then msg_no_header_end
                                         else msg_bad_request_line))
         \<and> (map_of d (ascii ''id'') = Some rid \<and> map_of d (ascii ''data'') = Some (JStr raw) \<longrightarrow>
              handle_request env c local drain (JObj d)
              = send_response_to_server env c drain
                  (error_response rid (if py_find raw (CRLF @ CRLF) = None then msg_no_header_end
                                       else msg_bad_request_line)))
         \<and> (digest_ok env \<and> (\<forall>k. drain k) \<longrightarrow>
              (\<exists>message.
                 frame_message env (cl_secret_key c)
                   (response_json
                      (error_response rid (if py_find raw (CRLF @ CRLF) = None
                                           then msg_no_header_end else msg_bad_request_line)))
                 = Some message
               \<and> send_response_to_server env c drain
                   (error_response rid (if py_find raw (CRLF @ CRLF) = None then msg_no_header_end
                                        else msg_bad_request_line))
                 = map Emitted (send_loop drain message 0 0)
               \<and> concat (send_loop drain message 0 0) = message))"
proof -
  let ?msg = "if py_find raw (CRLF @ CRLF) = None then msg_no_header_end else msg_bad_request_line"
  have f: "forward_request_to_local_api c local rid (Some (JStr raw))
           = (None, error_response rid ?msg)"
    by (simp add: forward_request_to_local_api_def build_call_malformed [OF assms])
  have h: "handle_request env c local drain (JObj d)
           = send_response_to_server env c drain (error_response rid ?msg)"
    if "map_of d (ascii ''id'') = Some rid" "map_of d (ascii ''data'') = Some (JStr raw)"
    using that f by (simp add: handle_request_def)
  have s: "\<exists>message.
             frame_message env (cl_secret_key c) (response_json (error_response rid ?msg))
             = Some message
           \<and> send_response_to_server env c drain (error_response rid ?msg)
             = map Emitted (send_loop drain message 0 0)
           \<and> concat (send_loop drain message 0 0) = message"
    if dk: "digest_ok env" and dr: "\<forall>k. drain k"
  proof -
    obtain message where
      m: "frame_message env (cl_secret_key c) (response_json (error_response rid ?msg))
          = Some message"
      using frame_message_ok [OF dk] by blast
    have "concat (send_loop drain message 0 0) = message"
      using send_loop_concat [of drain message 0 0] dr by simp
    with m show ?thesis by (simp add: send_response_to_server_def)
  qed
  from f h s show ?thesis by blast
qed

theorem malformed_request_answered_500_witness:
  "malformed_request (ascii ''GET /health'' @ CRLF @ CRLF)
   \<and> forward_request_to_local_api demo_client (\<lambda>call. Inr text_response) (JStr (ascii ''r1''))
        (Some (JStr (ascii ''GET /health'' @ CRLF @ CRLF)))
      = (None, error_response (JStr (ascii ''r1'')) msg_bad_request_line)"
proof -
  have m: "malformed_request (ascii ''GET /health'' @ CRLF @ CRLF)"
    by (simp add: malformed_request_def eval_defs py_split.simps)
  have f: "py_find (ascii ''GET /health'' @ CRLF @ CRLF) (CRLF @ CRLF) \<noteq> None"
    by (simp add: eval_defs)
  from malformed_request_answered_500 [OF m, of demo_client "\<lambda>call. Inr text_response"
         "JStr (ascii ''r1'')"]
  have "forward_request_to_local_api demo_client (\<lambda>call. Inr text_response) (JStr (ascii ''r1''))
          (Some (JStr (ascii ''GET /health'' @ CRLF @ CRLF)))
        = (None, error_response (JStr (ascii ''r1''))
                   (if py_find (ascii ''GET /health'' @ CRLF @ CRLF) (CRLF @ CRLF) = None
                    then msg_no_header_end else msg_bad_request_line))"
    by blast
  with f have "forward_request_to_local_api demo_client (\<lambda>call. Inr text_response)
                 (JStr (ascii ''r1'')) (Some (JStr (ascii ''GET /health'' @ CRLF @ CRLF)))
               = (None, error_response (JStr (ascii ''r1'')) msg_bad_request_line)"
    by (simp only: if_False)
  with m show ?thesis by blast
qed

end
